theory Spec2Isabelle
  imports Complex_Main "HOL-Library.AList" "HOL-Library.Log_Nat" "HOL-Library.Sublist"
begin

section \<open>Exceptions\<close>

text \<open>
  The exceptions of the Docker client library.  In docker-py \<open>ImageNotFound\<close> is a
  subclass of \<open>NotFound\<close>, which is a subclass of \<open>APIError\<close>; \<open>OtherError\<close> stands for
  any other exception raised inside a client call (a transport error, a timeout).  Each
  carries the text that \<open>str(e)\<close> gives.
\<close>

datatype docker_error =
    NotFound string
  | ImageNotFound string
  | APIError string
  | OtherError string

fun is_NotFound :: "docker_error \<Rightarrow> bool" where
  "is_NotFound (NotFound m) = True"
| "is_NotFound (ImageNotFound m) = True"
| "is_NotFound (APIError m) = False"
| "is_NotFound (OtherError m) = False"

fun is_ImageNotFound :: "docker_error \<Rightarrow> bool" where
  "is_ImageNotFound (ImageNotFound m) = True"
| "is_ImageNotFound (NotFound m) = False"
| "is_ImageNotFound (APIError m) = False"
| "is_ImageNotFound (OtherError m) = False"

fun is_APIError :: "docker_error \<Rightarrow> bool" where
  "is_APIError (OtherError m) = False"
| "is_APIError (NotFound m) = True"
| "is_APIError (ImageNotFound m) = True"
| "is_APIError (APIError m) = True"

fun docker_str :: "docker_error \<Rightarrow> string" where
  "docker_str (NotFound m) = m"
| "docker_str (ImageNotFound m) = m"
| "docker_str (APIError m) = m"
| "docker_str (OtherError m) = m"

text \<open>
  What a method of the service can raise: an exception of the client library, a plain
  \<open>Exception(msg)\<close> raised by the service itself, a \<open>KeyError\<close> from indexing a
  container definition, or a \<open>UnicodeDecodeError\<close> from \<open>bytes.decode()\<close>.
\<close>

text \<open>The text of a \<open>UnicodeDecodeError\<close>, which only appears in a log line, is shortened.\<close>

datatype error =
    DockerError docker_error
  | PyException string
  | KeyError string
  | UnicodeDecodeError

fun error_str :: "error \<Rightarrow> string" where
  "error_str (DockerError d) = docker_str d"
| "error_str (PyException m) = m"
| "error_str (KeyError k) = [CHR 0x27] @ k @ [CHR 0x27]"
| "error_str UnicodeDecodeError = ''invalid utf-8''"

section \<open>Python values\<close>

text \<open>Truthiness of an optional string, an optional dict and an optional int.\<close>

fun truthy_str :: "string option \<Rightarrow> bool" where
  "truthy_str None = False"
| "truthy_str (Some s) = (s \<noteq> [])"

fun truthy_dict :: "('k \<times> 'v) list option \<Rightarrow> bool" where
  "truthy_dict None = False"
| "truthy_dict (Some d) = (d \<noteq> [])"

fun truthy_int :: "int option \<Rightarrow> bool" where
  "truthy_int None = False"
| "truthy_int (Some i) = (i \<noteq> 0)"

text \<open>\<open>d or {}\<close> for an optional dict.\<close>

fun or_empty :: "('k \<times> 'v) list option \<Rightarrow> ('k \<times> 'v) list" where
  "or_empty None = []"
| "or_empty (Some d) = d"

text \<open>\<open>d.update(e)\<close> and \<open>{**d, **e}\<close>: the keys of \<open>e\<close> are written into \<open>d\<close> in order.\<close>

definition dict_update :: "('k \<times> 'v) list \<Rightarrow> ('k \<times> 'v) list \<Rightarrow> ('k \<times> 'v) list" where
  "dict_update d e = fold (\<lambda>(k, v) acc. AList.update k v acc) e d"

definition dict_get :: "('k \<times> 'v) list \<Rightarrow> 'k \<Rightarrow> 'v option" where
  "dict_get d k = map_of d k"

text \<open>\<open>str(n)\<close> for an int, and for an optional int (\<open>str(None)\<close> is \<open>None\<close>).\<close>

fun digits :: "nat \<Rightarrow> string" where
  "digits n = (if n < 10 then [char_of (48 + n)] else digits (n div 10) @ [char_of (48 + n mod 10)])"

definition str_int :: "int \<Rightarrow> string" where
  "str_int i = (if i < 0 then CHR ''-'' # digits (nat (- i)) else digits (nat i))"

fun str_int_opt :: "int option \<Rightarrow> string" where
  "str_int_opt None = ''None''"
| "str_int_opt (Some i) = str_int i"

fun str_opt :: "string option \<Rightarrow> string" where
  "str_opt None = ''None''"
| "str_opt (Some s) = s"

text \<open>\<open>int(x)\<close> for a finite float: truncation towards zero.\<close>

definition py_int :: "rat \<Rightarrow> int" where
  "py_int x = (if 0 \<le> x then \<lfloor>x\<rfloor> else \<lceil>x\<rceil>)"

text \<open>
  A Python float is an IEEE double: a number is held as the nearest number with 53
  significant bits, ties going to the even significand, and the result of every
  arithmetic operation is rounded in the same way.  \<open>round53\<close> is that rounding;
  \<open>ilog2 x\<close> is the exponent \<open>e\<close> with \<open>2^e \<le> x < 2^(e+1)\<close> for a positive \<open>x\<close>.  A finite
  float is the rational it denotes.  The exponent range of a double is not modelled: the
  values \<open>nan\<close> and \<open>inf\<close>, and products beyond the largest double (on all of which \<open>int()\<close>
  raises), are no values of the model, and a result below the smallest normal double is
  rounded to 53 bits as well, which \<open>int()\<close> cannot tell apart since both are below 1.
\<close>

definition round_half_even :: "rat \<Rightarrow> int" where
  "round_half_even q =
     (let f = \<lfloor>q\<rfloor>; d = q - of_int f
      in if d < 1 / 2 then f else if 1 / 2 < d then f + 1 else if even f then f else f + 1)"

definition ilog2 :: "rat \<Rightarrow> int" where
  "ilog2 x = (let e0 = bitlen (fst (quotient_of x)) - bitlen (snd (quotient_of x))
              in if 2 powi e0 \<le> x then e0 else e0 - 1)"

definition round53 :: "rat \<Rightarrow> rat" where
  "round53 x =
     (if x = 0 then 0
      else let u = 2 powi (ilog2 \<bar>x\<bar> - 52)
           in sgn x * of_int (round_half_even (\<bar>x\<bar> / u)) * u)"

text \<open>\<open>x * y\<close> on floats.\<close>

definition float_mult :: "rat \<Rightarrow> rat \<Rightarrow> rat" where
  "float_mult x y = round53 (round53 x * round53 y)"

text \<open>
  The output of \<open>exec_run\<close> is a byte string; \<open>decode()\<close> raises when the bytes are not
  UTF-8.
\<close>

datatype bytes = Utf8 string | Undecodable

fun decode :: "bytes \<Rightarrow> error + string" where
  "decode (Utf8 s) = Inr s"
| "decode Undecodable = Inl UnicodeDecodeError"

text \<open>
  \<open>str.strip()\<close> removes the characters for which \<open>str.isspace()\<close> holds.  A \<open>char\<close> of
  the decoded text is a code point below 256; among those the white space is TAB, LF, VT,
  FF, CR, U+001C to U+001F, the space, U+0085 and U+00A0.
\<close>

definition is_space :: "char \<Rightarrow> bool" where
  "is_space c = (c \<in> set [CHR 0x09, CHR 0x0A, CHR 0x0B, CHR 0x0C, CHR 0x0D,
                           CHR 0x1C, CHR 0x1D, CHR 0x1E, CHR 0x1F, CHR 0x20, CHR 0x85, CHR 0xA0])"

definition strip :: "string \<Rightarrow> string" where
  "strip s = rev (dropWhile is_space (rev (dropWhile is_space s)))"

section \<open>The container runtime\<close>

record container =
  c_id :: string
  c_status :: string
  c_labels :: "(string \<times> string) list"

record network =
  n_id :: string
  n_name :: string

text \<open>
  The keyword arguments of \<open>client.containers.run\<close>; an argument that a call site does
  not pass is \<open>None\<close>.  \<open>ra_networking_config\<close> is the network name and the aliases of
  its endpoint.
\<close>

record run_args =
  ra_image :: string
  ra_name :: "string option"
  ra_command :: "string option"
  ra_detach :: bool
  ra_auto_remove :: bool
  ra_ports :: "(string \<times> int option) list option"
  ra_environment :: "(string \<times> string) list"
  ra_mem_limit :: string
  ra_cpu_quota :: int
  ra_cpu_period :: int
  ra_pids_limit :: int
  ra_labels :: "(string \<times> string) list"
  ra_network :: "string option"
  ra_network_mode :: "string option"
  ra_networking_config :: "(string \<times> string list) option"
  ra_cap_drop :: "string list option"
  ra_cap_add :: "string list option"
  ra_security_opt :: "string list option"

text \<open>The keyword arguments of \<open>client.networks.create\<close>.\<close>

record net_args =
  na_name :: string
  na_driver :: string
  na_internal :: "bool option"
  na_options :: "(string \<times> string) list option"
  na_check_duplicate :: "bool option"
  na_labels :: "(string \<times> string) list"

text \<open>
  Every call of the client API is recorded with its answer, in order.  The second
  argument of \<open>EvList\<close> is the label filter.
\<close>

datatype event =
    EvPing "docker_error option"
  | EvRun run_args "docker_error + container"
  | EvGet string "docker_error + container"
  | EvStop container int "docker_error option"
  | EvRemove container "docker_error option"
  | EvExec container string "docker_error + int \<times> bytes"
  | EvList bool string "docker_error + container list"
  | EvNetCreate net_args "docker_error + network"
  | EvNetGet string "docker_error + network"
  | EvNetRemove network "docker_error option"
  | EvNetConnect network container "docker_error option"
  | EvNetDisconnect network container "docker_error option"

text \<open>
  The runtime is a black box: the answer to a call may depend on everything that was
  called before.  \<open>rt_containers\<close> is the set of containers that exist at that moment
  and \<open>rt_list_error\<close> says whether listing them fails.
\<close>

record runtime =
  rt_ping :: "event list \<Rightarrow> docker_error option"
  rt_run :: "event list \<Rightarrow> run_args \<Rightarrow> docker_error + container"
  rt_get :: "event list \<Rightarrow> string \<Rightarrow> docker_error + container"
  rt_stop :: "event list \<Rightarrow> container \<Rightarrow> int \<Rightarrow> docker_error option"
  rt_remove :: "event list \<Rightarrow> container \<Rightarrow> docker_error option"
  rt_exec :: "event list \<Rightarrow> container \<Rightarrow> string \<Rightarrow> docker_error + int \<times> bytes"
  rt_containers :: "event list \<Rightarrow> container list"
  rt_list_error :: "event list \<Rightarrow> docker_error option"
  rt_net_create :: "event list \<Rightarrow> net_args \<Rightarrow> docker_error + network"
  rt_net_get :: "event list \<Rightarrow> string \<Rightarrow> docker_error + network"
  rt_net_remove :: "event list \<Rightarrow> network \<Rightarrow> docker_error option"
  rt_net_connect :: "event list \<Rightarrow> network \<Rightarrow> container \<Rightarrow> docker_error option"
  rt_net_disconnect :: "event list \<Rightarrow> network \<Rightarrow> container \<Rightarrow> docker_error option"

datatype level = INFO | WARNING | ERROR

text \<open>
  The state of the service: whether \<open>self.client\<close> is set, the calls made so far and
  the log.
\<close>

record state =
  st_client :: bool
  st_trace :: "event list"
  st_log :: "(level \<times> string) list"

definition emit :: "event \<Rightarrow> state \<Rightarrow> state" where
  "emit ev s = s\<lparr>st_trace := st_trace s @ [ev]\<rparr>"

definition logger :: "level \<Rightarrow> string \<Rightarrow> state \<Rightarrow> state" where
  "logger lvl msg s = s\<lparr>st_log := st_log s @ [(lvl, msg)]\<rparr>"

subsection \<open>The calls\<close>

definition ping :: "runtime \<Rightarrow> state \<Rightarrow> docker_error option \<times> state" where
  "ping rt s = (let r = rt_ping rt (st_trace s) in (r, emit (EvPing r) s))"

definition containers_run :: "runtime \<Rightarrow> run_args \<Rightarrow> state \<Rightarrow> (docker_error + container) \<times> state" where
  "containers_run rt a s = (let r = rt_run rt (st_trace s) a in (r, emit (EvRun a r) s))"

definition containers_get :: "runtime \<Rightarrow> string \<Rightarrow> state \<Rightarrow> (docker_error + container) \<times> state" where
  "containers_get rt i s = (let r = rt_get rt (st_trace s) i in (r, emit (EvGet i r) s))"

definition container_stop :: "runtime \<Rightarrow> container \<Rightarrow> int \<Rightarrow> state \<Rightarrow> docker_error option \<times> state" where
  "container_stop rt c t s = (let r = rt_stop rt (st_trace s) c t in (r, emit (EvStop c t r) s))"

definition container_remove :: "runtime \<Rightarrow> container \<Rightarrow> state \<Rightarrow> docker_error option \<times> state" where
  "container_remove rt c s = (let r = rt_remove rt (st_trace s) c in (r, emit (EvRemove c r) s))"

definition exec_run :: "runtime \<Rightarrow> container \<Rightarrow> string \<Rightarrow> state \<Rightarrow> (docker_error + int \<times> bytes) \<times> state" where
  "exec_run rt c cmd s = (let r = rt_exec rt (st_trace s) c cmd in (r, emit (EvExec c cmd r) s))"

text \<open>
  \<open>containers.list(all=..., filters={'label': 'key=value'})\<close>: the runtime answers with
  the containers that carry the label with that value; without \<open>all\<close> only the running
  ones.
\<close>

definition label_filter :: "string \<Rightarrow> container \<Rightarrow> bool" where
  "label_filter f c =
     (let k = takeWhile (\<lambda>x. x \<noteq> CHR ''='') f; v = drop (Suc (length k)) f
      in dict_get (c_labels c) k = Some v)"

definition containers_list :: "runtime \<Rightarrow> bool \<Rightarrow> string \<Rightarrow> state \<Rightarrow> (docker_error + container list) \<times> state" where
  "containers_list rt all f s =
     (let r = (case rt_list_error rt (st_trace s) of
                 Some e \<Rightarrow> Inl e
               | None \<Rightarrow> Inr (filter (\<lambda>c. label_filter f c \<and> (all \<or> c_status c = ''running''))
                                   (rt_containers rt (st_trace s))))
      in (r, emit (EvList all f r) s))"

definition networks_create :: "runtime \<Rightarrow> net_args \<Rightarrow> state \<Rightarrow> (docker_error + network) \<times> state" where
  "networks_create rt a s = (let r = rt_net_create rt (st_trace s) a in (r, emit (EvNetCreate a r) s))"

definition networks_get :: "runtime \<Rightarrow> string \<Rightarrow> state \<Rightarrow> (docker_error + network) \<times> state" where
  "networks_get rt i s = (let r = rt_net_get rt (st_trace s) i in (r, emit (EvNetGet i r) s))"

definition network_remove :: "runtime \<Rightarrow> network \<Rightarrow> state \<Rightarrow> docker_error option \<times> state" where
  "network_remove rt n s = (let r = rt_net_remove rt (st_trace s) n in (r, emit (EvNetRemove n r) s))"

definition network_connect :: "runtime \<Rightarrow> network \<Rightarrow> container \<Rightarrow> state \<Rightarrow> docker_error option \<times> state" where
  "network_connect rt n c s = (let r = rt_net_connect rt (st_trace s) n c in (r, emit (EvNetConnect n c r) s))"

definition network_disconnect :: "runtime \<Rightarrow> network \<Rightarrow> container \<Rightarrow> state \<Rightarrow> docker_error option \<times> state" where
  "network_disconnect rt n c s = (let r = rt_net_disconnect rt (st_trace s) n c in (r, emit (EvNetDisconnect n c r) s))"

section \<open>DockerService\<close>

subsection \<open>is_connected\<close>

definition is_connected :: "runtime \<Rightarrow> state \<Rightarrow> bool \<times> state" where
  "is_connected rt s =
     (if \<not> st_client s then (False, s)
      else case ping rt s of
             (None, s1) \<Rightarrow> (True, s1)
           | (Some e, s1) \<Rightarrow> (False, s1))"

subsection \<open>create_container\<close>

text \<open>
  The arguments of \<open>create_container\<close>.  \<open>cc_cpu_limit\<close> is a finite float, given as the
  number it denotes; a share whose product with the period is not a finite float makes
  \<open>int()\<close> raise before any container is run and is not a value of this record.
\<close>

record cc_args =
  cc_image :: string
  cc_internal_port :: "int option"
  cc_host_port :: "int option"
  cc_ports :: "(string \<times> int) list option"
  cc_command :: "string option"
  cc_environment :: "(string \<times> string) list option"
  cc_memory_limit :: string
  cc_cpu_limit :: rat
  cc_pids_limit :: int
  cc_labels :: "(string \<times> string) list option"
  cc_name :: "string option"
  cc_network :: "string option"
  cc_use_traefik :: bool
  cc_network_mode :: "string option"

record created =
  cr_container_id :: string
  cr_status :: string
  cr_port :: "int option"

definition cpu_period :: int where
  "cpu_period = 100000"

text \<open>
  \<open>cpu_quota = int(cpu_limit * cpu_period)\<close>: \<open>cpu_limit\<close> is a float, so the product is the
  float product of the share (as the double that holds it) and 100000.
\<close>

definition cpu_quota :: "rat \<Rightarrow> int" where
  "cpu_quota cpu_limit = py_int (float_mult cpu_limit (of_int cpu_period))"

definition container_labels :: "(string \<times> string) list option \<Rightarrow> (string \<times> string) list" where
  "container_labels labels =
     dict_update (or_empty labels) [(''ctfd.managed'', ''true''), (''ctfd.plugin'', ''containers'')]"

definition ports_config :: "cc_args \<Rightarrow> (string \<times> int option) list option" where
  "ports_config a =
     (if \<not> cc_use_traefik a then
        (if truthy_dict (cc_ports a) then
           Some (fold (\<lambda>(internal, external) acc. AList.update (internal @ ''/tcp'') (Some external) acc)
                      (or_empty (cc_ports a)) [])
         else Some [(str_int_opt (cc_internal_port a) @ ''/tcp'', cc_host_port a)])
      else None)"

text \<open>
  The arguments of \<open>containers.run\<close> in \<open>create_container\<close>.  The method has two call
  sites: with \<open>network_mode\<close> set, only \<open>network_mode\<close> is passed; otherwise the port
  mapping (none under Traefik, the \<open>ports\<close> dict if it is not empty, else the single pair
  of \<open>internal_port\<close> and \<open>host_port\<close>) and the network (\<open>bridge\<close> by default).
\<close>

fun network_arg :: "string option \<Rightarrow> string" where
  "network_arg None = ''bridge''"
| "network_arg (Some n) = (if n \<noteq> [] then n else ''bridge'')"

definition create_run_args :: "cc_args \<Rightarrow> run_args" where
  "create_run_args a =
     (if truthy_str (cc_network_mode a) then
        \<lparr>ra_image = cc_image a, ra_name = cc_name a, ra_command = cc_command a,
         ra_detach = True, ra_auto_remove = True, ra_ports = None,
         ra_environment = or_empty (cc_environment a), ra_mem_limit = cc_memory_limit a,
         ra_cpu_quota = cpu_quota (cc_cpu_limit a), ra_cpu_period = cpu_period,
         ra_pids_limit = cc_pids_limit a, ra_labels = container_labels (cc_labels a),
         ra_network = None, ra_network_mode = cc_network_mode a, ra_networking_config = None,
         ra_cap_drop = Some [''ALL''], ra_cap_add = Some [''CHOWN'', ''SETUID'', ''SETGID''],
         ra_security_opt = Some [''no-new-privileges'']\<rparr>
      else
        \<lparr>ra_image = cc_image a, ra_name = cc_name a, ra_command = cc_command a,
         ra_detach = True, ra_auto_remove = True, ra_ports = ports_config a,
         ra_environment = or_empty (cc_environment a), ra_mem_limit = cc_memory_limit a,
         ra_cpu_quota = cpu_quota (cc_cpu_limit a), ra_cpu_period = cpu_period,
         ra_pids_limit = cc_pids_limit a, ra_labels = container_labels (cc_labels a),
         ra_network = Some (network_arg (cc_network a)),
         ra_network_mode = None, ra_networking_config = None,
         ra_cap_drop = Some [''ALL''], ra_cap_add = Some [''CHOWN'', ''SETUID'', ''SETGID''],
         ra_security_opt = Some [''no-new-privileges'']\<rparr>)"

definition create_container :: "runtime \<Rightarrow> cc_args \<Rightarrow> state \<Rightarrow> (error + created) \<times> state" where
  "create_container rt a s =
     (case is_connected rt s of
        (False, s1) \<Rightarrow> (Inl (PyException ''Docker is not connected''), s1)
      | (True, s1) \<Rightarrow>
          (case containers_run rt (create_run_args a) s1 of
             (Inr container, s2) \<Rightarrow>
               (Inr \<lparr>cr_container_id = c_id container, cr_status = c_status container,
                     cr_port = cc_host_port a\<rparr>,
                logger INFO (''Created container '' @ take 12 (c_id container) @ '' from image '' @ cc_image a) s2)
           | (Inl e, s2) \<Rightarrow>
               (if is_ImageNotFound e then
                  (Inl (PyException (''Docker image '' @ [CHR 0x27] @ cc_image a @ [CHR 0x27] @ '' not found'')),
                   logger ERROR (''Docker image not found: '' @ cc_image a) s2)
                else if is_APIError e then
                  (Inl (PyException (''Failed to create container: '' @ docker_str e)),
                   logger ERROR (''Docker API error: '' @ docker_str e) s2)
                else
                  (Inl (DockerError e),
                   logger ERROR (''Unexpected error creating container: '' @ docker_str e) s2))))"

subsection \<open>stop_container\<close>

text \<open>\<open>c.stop(timeout=t); c.remove()\<close> and \<open>c = containers.get(i); c.stop(timeout=t); c.remove()\<close>:
  the first exception ends the sequence.\<close>

definition stop_remove :: "runtime \<Rightarrow> container \<Rightarrow> int \<Rightarrow> state \<Rightarrow> docker_error option \<times> state" where
  "stop_remove rt c t s =
     (case container_stop rt c t s of
        (Some e, s1) \<Rightarrow> (Some e, s1)
      | (None, s1) \<Rightarrow> container_remove rt c s1)"

definition get_stop_remove :: "runtime \<Rightarrow> string \<Rightarrow> int \<Rightarrow> state \<Rightarrow> docker_error option \<times> state" where
  "get_stop_remove rt i t s =
     (case containers_get rt i s of
        (Inl e, s1) \<Rightarrow> (Some e, s1)
      | (Inr c, s1) \<Rightarrow> stop_remove rt c t s1)"

definition stop_container :: "runtime \<Rightarrow> string \<Rightarrow> state \<Rightarrow> (error + bool) \<times> state" where
  "stop_container rt container_id s =
     (case is_connected rt s of
        (False, s1) \<Rightarrow> (Inr False, logger WARNING ''Docker not connected, cannot stop container'' s1)
      | (True, s1) \<Rightarrow>
          (case get_stop_remove rt container_id 3 s1 of
             (None, s2) \<Rightarrow>
               (Inr True, logger INFO (''Stopped and removed container '' @ take 12 container_id) s2)
           | (Some e, s2) \<Rightarrow>
               (if is_NotFound e then
                  (Inr True,
                   logger INFO (''Container '' @ take 12 container_id @ '' not found (already removed)'') s2)
                else
                  (Inr False,
                   logger ERROR (''Error stopping container '' @ take 12 container_id @ '': '' @ docker_str e) s2))))"

subsection \<open>list_managed_containers and cleanup_expired_containers\<close>

definition list_managed_containers :: "runtime \<Rightarrow> state \<Rightarrow> container list \<times> state" where
  "list_managed_containers rt s =
     (case is_connected rt s of
        (False, s1) \<Rightarrow> ([], s1)
      | (True, s1) \<Rightarrow>
          (case containers_list rt True ''ctfd.managed=true'' s1 of
             (Inr cs, s2) \<Rightarrow> (cs, s2)
           | (Inl e, s2) \<Rightarrow> ([], logger ERROR (''Error listing containers: '' @ docker_str e) s2)))"

text \<open>The test \<open>instance_uuid and instance_uuid not in instance_uuids\<close> of the sweep.\<close>

definition orphaned :: "string list \<Rightarrow> container \<Rightarrow> bool" where
  "orphaned instance_uuids c =
     (case dict_get (c_labels c) ''ctfd.instance_uuid'' of
        None \<Rightarrow> False
      | Some instance_uuid \<Rightarrow> instance_uuid \<noteq> [] \<and> instance_uuid \<notin> set instance_uuids)"

fun cleanup_loop :: "runtime \<Rightarrow> string list \<Rightarrow> container list \<Rightarrow> state \<Rightarrow> state" where
  "cleanup_loop rt instance_uuids [] s = s"
| "cleanup_loop rt instance_uuids (c # cs) s =
     (if orphaned instance_uuids c then
        cleanup_loop rt instance_uuids cs
          (snd (stop_remove rt c 5 (logger INFO (''Cleaning up orphaned container '' @ take 12 (c_id c)) s)))
      else cleanup_loop rt instance_uuids cs s)"

definition cleanup_expired_containers :: "runtime \<Rightarrow> string list \<Rightarrow> state \<Rightarrow> (error + unit) \<times> state" where
  "cleanup_expired_containers rt instance_uuids s =
     (case is_connected rt s of
        (False, s1) \<Rightarrow> (Inr (), s1)
      | (True, s1) \<Rightarrow>
          (case list_managed_containers rt s1 of
             (containers, s2) \<Rightarrow> (Inr (), cleanup_loop rt instance_uuids containers s2)))"

subsection \<open>create_network and remove_network\<close>

definition create_network ::
  "runtime \<Rightarrow> string \<Rightarrow> bool \<Rightarrow> string \<Rightarrow> (string \<times> string) list option \<Rightarrow> state \<Rightarrow> (error + bool) \<times> state" where
  "create_network rt name internal driver options s =
     (case is_connected rt s of
        (False, s1) \<Rightarrow> (Inr False, s1)
      | (True, s1) \<Rightarrow>
          (case networks_get rt name s1 of
             (Inr n, s2) \<Rightarrow> (Inr True, s2)
           | (Inl e, s2) \<Rightarrow>
               (if is_NotFound e then
                  (case networks_create rt
                          \<lparr>na_name = name, na_driver = driver, na_internal = Some internal,
                           na_options = options, na_check_duplicate = Some True,
                           na_labels = [(''ctfd.managed'', ''true'')]\<rparr> s2 of
                     (Inr n, s3) \<Rightarrow> (Inr True, logger INFO (''Created network '' @ name) s3)
                   | (Inl e', s3) \<Rightarrow>
                       (Inr False,
                        logger ERROR (''Failed to create network '' @ name @ '': '' @ docker_str e') s3))
                else
                  (Inr False, logger ERROR (''Failed to create network '' @ name @ '': '' @ docker_str e) s2))))"

definition remove_network :: "runtime \<Rightarrow> string \<Rightarrow> state \<Rightarrow> (error + bool) \<times> state" where
  "remove_network rt name s =
     (case is_connected rt s of
        (False, s1) \<Rightarrow> (Inr False, s1)
      | (True, s1) \<Rightarrow>
          (case (case networks_get rt name s1 of
                   (Inl e, s2) \<Rightarrow> (Some e, s2)
                 | (Inr n, s2) \<Rightarrow> network_remove rt n s2) of
             (None, s3) \<Rightarrow> (Inr True, logger INFO (''Removed network '' @ name) s3)
           | (Some e, s3) \<Rightarrow>
               (if is_NotFound e then (Inr True, s3)
                else
                  (Inr False,
                   logger WARNING (''Failed to remove network '' @ name @ '' (might be in use): '' @ docker_str e) s3))))"

subsection \<open>create_container_group\<close>

text \<open>
  One entry of \<open>containers_config\<close>, a dict: a key that is absent is \<open>None\<close>, and
  \<open>cd_expose\<close> is the truth value of \<open>c.get('expose')\<close>.
\<close>

record container_def =
  cd_name :: "string option"
  cd_image :: "string option"
  cd_command :: "string option"
  cd_environment :: "(string \<times> string) list option"
  cd_expose :: bool

record cg_args =
  cg_containers_config :: "container_def list"
  cg_network_name :: string
  cg_entry_port :: int
  cg_host_port :: int
  cg_flag :: string
  cg_labels :: "(string \<times> string) list option"
  cg_name_prefix :: string
  cg_memory_limit :: string
  cg_cpu_limit :: rat
  cg_pids_limit :: int
  cg_connection_host :: string
  cg_tailnet_container :: string

record group_handle =
  gh_container_ids :: "string list"
  gh_entry_container_id :: string
  gh_network_id :: string
  gh_port :: int

text \<open>The local variables that the exception handler of \<open>create_container_group\<close> reads.\<close>

record locals =
  created_containers :: "container list"
  lc_network :: "network option"
  ts_connected :: bool
  ts_serve_port :: "int option"

definition init_locals :: locals where
  "init_locals = \<lparr>created_containers = [], lc_network = None, ts_connected = False, ts_serve_port = None\<rparr>"

definition group_net_args :: "cg_args \<Rightarrow> net_args" where
  "group_net_args a =
     \<lparr>na_name = cg_network_name a, na_driver = ''bridge'', na_internal = None, na_options = None,
      na_check_duplicate = None,
      na_labels = dict_update [(''ctfd.managed'', ''true''), (''ctfd.compose_group'', cg_name_prefix a)]
                              (or_empty (cg_labels a))\<rparr>"

text \<open>The first index whose entry has \<open>expose\<close>: the loop with \<open>break\<close>.\<close>

fun find_entry :: "nat \<Rightarrow> container_def list \<Rightarrow> nat option" where
  "find_entry i [] = None"
| "find_entry i (c # cs) = (if cd_expose c then Some i else find_entry (Suc i) cs)"

definition no_expose_msg :: string where
  "no_expose_msg = ''No container has '' @ [CHR 0x27] @ ''expose'' @ [CHR 0x27] @
                   '' defined. One container must expose a port.''"

text \<open>
  The two \<open>containers.run\<close> calls of the group differ in the role label and the
  environment only; \<open>entry\<close> says which of the two it is.
\<close>

definition member_env :: "cg_args \<Rightarrow> bool \<Rightarrow> container_def \<Rightarrow> (string \<times> string) list" where
  "member_env a entry c_def =
     (if entry then
        dict_update (or_empty (cd_environment c_def))
          [(''FLAG'', cg_flag a), (''PORT'', str_int (cg_entry_port a))]
      else or_empty (cd_environment c_def))"

definition member_run_args :: "cg_args \<Rightarrow> bool \<Rightarrow> string \<Rightarrow> string \<Rightarrow> container_def \<Rightarrow> run_args" where
  "member_run_args a entry name img c_def =
     \<lparr>ra_image = img, ra_name = Some (cg_name_prefix a @ ''-'' @ name),
      ra_command = cd_command c_def, ra_detach = True, ra_auto_remove = True, ra_ports = None,
      ra_environment = member_env a entry c_def, ra_mem_limit = cg_memory_limit a,
      ra_cpu_quota = cpu_quota (cg_cpu_limit a), ra_cpu_period = cpu_period,
      ra_pids_limit = cg_pids_limit a,
      ra_labels = dict_update (or_empty (cg_labels a))
                    [(''ctfd.compose_role'', if entry then ''entry'' else ''internal''),
                     (''ctfd.compose_name'', name)],
      ra_network = None, ra_network_mode = None,
      ra_networking_config = Some (cg_network_name a, [name]),
      ra_cap_drop = None, ra_cap_add = None, ra_security_opt = None\<rparr>"

definition create_member ::
  "runtime \<Rightarrow> cg_args \<Rightarrow> bool \<Rightarrow> container_def \<Rightarrow> locals \<Rightarrow> state \<Rightarrow> (error + string \<times> container) \<times> locals \<times> state" where
  "create_member rt a entry c_def loc s =
     (case cd_name c_def of
        None \<Rightarrow> (Inl (KeyError ''name''), loc, s)
      | Some name \<Rightarrow>
          (case cd_image c_def of
             None \<Rightarrow> (Inl (KeyError ''image''), loc, s)
           | Some img \<Rightarrow>
               (case containers_run rt (member_run_args a entry name img c_def) s of
                  (Inl e, s1) \<Rightarrow> (Inl (DockerError e), loc, s1)
                | (Inr container, s1) \<Rightarrow>
                    (Inr (cg_name_prefix a @ ''-'' @ name, container),
                     loc\<lparr>created_containers := created_containers loc @ [container]\<rparr>,
                     logger INFO ((if entry then ''Created entry container: '' else ''Created internal container: '')
                               @ cg_name_prefix a @ ''-'' @ name @ '' ('' @ take 12 (c_id container) @ '')'') s1))))"

fun create_internals ::
  "runtime \<Rightarrow> cg_args \<Rightarrow> nat \<Rightarrow> (nat \<times> container_def) list \<Rightarrow> locals \<Rightarrow> state \<Rightarrow> error option \<times> locals \<times> state" where
  "create_internals rt a entry_idx [] loc s = (None, loc, s)"
| "create_internals rt a entry_idx ((i, c_def) # rest) loc s =
     (if i = entry_idx then create_internals rt a entry_idx rest loc s
      else (case create_member rt a False c_def loc s of
              (Inl e, loc1, s1) \<Rightarrow> (Some e, loc1, s1)
            | (Inr c, loc1, s1) \<Rightarrow> create_internals rt a entry_idx rest loc1 s1))"

definition serve_cmd :: "int \<Rightarrow> string \<Rightarrow> int \<Rightarrow> string" where
  "serve_cmd host_port entry_name entry_port =
     ''tailscale serve --bg --tcp '' @ str_int host_port @ '' tcp://'' @ entry_name @ '':'' @ str_int entry_port"

definition serve_off_cmd :: "int \<Rightarrow> string" where
  "serve_off_cmd port = ''tailscale serve --tcp '' @ str_int port @ '' off''"

text \<open>Steps 5 and 6 and the result: join the relay to the network, bind the route.\<close>

definition attach_relay ::
  "runtime \<Rightarrow> cg_args \<Rightarrow> network \<Rightarrow> string \<Rightarrow> container \<Rightarrow> locals \<Rightarrow> state \<Rightarrow> (error + group_handle) \<times> locals \<times> state" where
  "attach_relay rt a network entry_name entry_container loc s =
     (case containers_get rt (cg_tailnet_container a) s of
        (Inl e, s1) \<Rightarrow> (Inl (DockerError e), loc, s1)
      | (Inr ts_container, s1) \<Rightarrow>
          (case network_connect rt network ts_container s1 of
             (Some e, s2) \<Rightarrow> (Inl (DockerError e), loc, s2)
           | (None, s2) \<Rightarrow>
               (let loc1 = loc\<lparr>ts_connected := True\<rparr>;
                    s3 = logger INFO (''Connected '' @ cg_tailnet_container a @ '' to '' @ cg_network_name a) s2
                in case exec_run rt ts_container
                          (serve_cmd (cg_host_port a) entry_name (cg_entry_port a)) s3 of
                     (Inl e, s4) \<Rightarrow> (Inl (DockerError e), loc1, s4)
                   | (Inr (exit_code, output), s4) \<Rightarrow>
                       (if exit_code \<noteq> 0 then
                          (case decode output of
                             Inl e \<Rightarrow> (Inl e, loc1, s4)
                           | Inr txt \<Rightarrow>
                               (Inl (PyException (''tailscale serve failed (exit '' @ str_int exit_code
                                                  @ ''): '' @ txt)), loc1, s4))
                        else
                          (let loc2 = loc1\<lparr>ts_serve_port := Some (cg_host_port a)\<rparr>;
                               s5 = logger INFO (''Tailscale serve: port '' @ str_int (cg_host_port a) @ '' -> ''
                                              @ entry_name @ '':'' @ str_int (cg_entry_port a)) s4
                           in case decode output of
                                Inl e \<Rightarrow> (Inl e, loc2, s5)
                              | Inr txt \<Rightarrow>
                                  (Inr \<lparr>gh_container_ids = map c_id (created_containers loc2),
                                        gh_entry_container_id = c_id entry_container,
                                        gh_network_id = n_id network,
                                        gh_port = cg_host_port a\<rparr>,
                                   loc2, logger INFO (''Output: '' @ strip txt) s5))))))"

text \<open>The body of the \<open>try\<close>; it returns the local variables as they are when it ends.\<close>

definition group_body ::
  "runtime \<Rightarrow> cg_args \<Rightarrow> locals \<Rightarrow> state \<Rightarrow> (error + group_handle) \<times> locals \<times> state" where
  "group_body rt a loc s =
     (case networks_create rt (group_net_args a) s of
        (Inl e, s1) \<Rightarrow> (Inl (DockerError e), loc, s1)
      | (Inr network, s1) \<Rightarrow>
          (let loc1 = loc\<lparr>lc_network := Some network\<rparr>;
               s2 = logger INFO (''Created private network: '' @ cg_network_name a) s1
           in case find_entry 0 (cg_containers_config a) of
                None \<Rightarrow> (Inl (PyException no_expose_msg), loc1, s2)
              | Some entry_idx \<Rightarrow>
                  (case create_internals rt a entry_idx (enumerate 0 (cg_containers_config a)) loc1 s2 of
                     (Some e, loc2, s3) \<Rightarrow> (Inl e, loc2, s3)
                   | (None, loc2, s3) \<Rightarrow>
                       (case create_member rt a True (cg_containers_config a ! entry_idx) loc2 s3 of
                          (Inl e, loc3, s4) \<Rightarrow> (Inl e, loc3, s4)
                        | (Inr (entry_name, entry_container), loc3, s4) \<Rightarrow>
                            attach_relay rt a network entry_name entry_container loc3 s4))))"

text \<open>The handler: each step is wrapped in \<open>try: ... except: pass\<close>.\<close>

definition cleanup_serve :: "runtime \<Rightarrow> string \<Rightarrow> int \<Rightarrow> state \<Rightarrow> state" where
  "cleanup_serve rt tailnet_container port s =
     (case containers_get rt tailnet_container s of
        (Inl e, s1) \<Rightarrow> s1
      | (Inr ts_container, s1) \<Rightarrow> snd (exec_run rt ts_container (serve_off_cmd port) s1))"

definition cleanup_disconnect :: "runtime \<Rightarrow> string \<Rightarrow> network \<Rightarrow> state \<Rightarrow> state" where
  "cleanup_disconnect rt tailnet_container network s =
     (case containers_get rt tailnet_container s of
        (Inl e, s1) \<Rightarrow> s1
      | (Inr ts_container, s1) \<Rightarrow> snd (network_disconnect rt network ts_container s1))"

fun cleanup_containers :: "runtime \<Rightarrow> container list \<Rightarrow> state \<Rightarrow> state" where
  "cleanup_containers rt [] s = s"
| "cleanup_containers rt (c # cs) s = cleanup_containers rt cs (snd (stop_remove rt c 3 s))"

definition group_cleanup :: "runtime \<Rightarrow> cg_args \<Rightarrow> locals \<Rightarrow> state \<Rightarrow> state" where
  "group_cleanup rt a loc s =
     (let s1 = (case ts_serve_port loc of
                  None \<Rightarrow> s
                | Some port \<Rightarrow> if port \<noteq> 0 then cleanup_serve rt (cg_tailnet_container a) port s else s);
          s2 = (case lc_network loc of
                  None \<Rightarrow> s1
                | Some network \<Rightarrow>
                    if ts_connected loc then cleanup_disconnect rt (cg_tailnet_container a) network s1 else s1);
          s3 = cleanup_containers rt (created_containers loc) s2
      in case lc_network loc of
           None \<Rightarrow> s3
         | Some network \<Rightarrow> snd (network_remove rt network s3))"

definition create_container_group :: "runtime \<Rightarrow> cg_args \<Rightarrow> state \<Rightarrow> (error + group_handle) \<times> state" where
  "create_container_group rt a s =
     (case is_connected rt s of
        (False, s1) \<Rightarrow> (Inl (PyException ''Docker is not connected''), s1)
      | (True, s1) \<Rightarrow>
          (case group_body rt a init_locals s1 of
             (Inr handle, loc, s2) \<Rightarrow> (Inr handle, s2)
           | (Inl e, loc, s2) \<Rightarrow>
               (Inl e, group_cleanup rt a loc
                         (logger ERROR (''Error creating container group: '' @ error_str e) s2))))"

subsection \<open>stop_container_group\<close>

record sg_args =
  sg_container_ids :: "string list option"
  sg_network_id :: "string option"
  sg_host_port :: "int option"
  sg_tailnet_container :: string

definition stop_serve :: "runtime \<Rightarrow> string \<Rightarrow> int \<Rightarrow> state \<Rightarrow> state" where
  "stop_serve rt tailnet_container host_port s =
     (case (case containers_get rt tailnet_container s of
              (Inl e, s1) \<Rightarrow> (Some e, s1)
            | (Inr ts_container, s1) \<Rightarrow>
                (case exec_run rt ts_container (serve_off_cmd host_port) s1 of
                   (Inl e, s2) \<Rightarrow> (Some e, s2)
                 | (Inr r, s2) \<Rightarrow> (None, s2))) of
        (None, s3) \<Rightarrow> logger INFO (''Removed tailscale serve for port '' @ str_int host_port) s3
      | (Some e, s3) \<Rightarrow>
          (if is_NotFound e then
             logger WARNING (''Tailscale container '' @ tailnet_container @ '' not found'') s3
           else logger WARNING (''Error removing tailscale serve: '' @ docker_str e) s3))"

fun stop_group_containers :: "runtime \<Rightarrow> string list \<Rightarrow> bool \<Rightarrow> state \<Rightarrow> bool \<times> state" where
  "stop_group_containers rt [] success s = (success, s)"
| "stop_group_containers rt (cid # cids) success s =
     (case get_stop_remove rt cid 3 s of
        (None, s1) \<Rightarrow>
          stop_group_containers rt cids success (logger INFO (''Stopped container '' @ take 12 cid) s1)
      | (Some e, s1) \<Rightarrow>
          (if is_NotFound e then
             stop_group_containers rt cids success
               (logger INFO (''Container '' @ take 12 cid @ '' not found (already removed)'') s1)
           else
             stop_group_containers rt cids False
               (logger ERROR (''Error stopping container '' @ take 12 cid @ '': '' @ docker_str e) s1)))"

definition stop_group_network :: "runtime \<Rightarrow> string \<Rightarrow> string \<Rightarrow> bool \<Rightarrow> state \<Rightarrow> bool \<times> state" where
  "stop_group_network rt tailnet_container network_id success s =
     (case (case networks_get rt network_id s of
              (Inl e, s1) \<Rightarrow> (Some e, s1)
            | (Inr network, s1) \<Rightarrow>
                (let s2 = (case containers_get rt tailnet_container s1 of
                             (Inl e, s') \<Rightarrow> s'
                           | (Inr ts_container, s') \<Rightarrow>
                               (case network_disconnect rt network ts_container s' of
                                  (Some e, s'') \<Rightarrow> s''
                                | (None, s'') \<Rightarrow>
                                    logger INFO (''Disconnected '' @ tailnet_container @ '' from network ''
                                              @ take 12 network_id) s''))
                 in case network_remove rt network s2 of
                      (Some e, s3) \<Rightarrow> (Some e, s3)
                    | (None, s3) \<Rightarrow>
                        (None, logger INFO (''Removed private network '' @ take 12 network_id) s3))) of
        (None, s4) \<Rightarrow> (success, s4)
      | (Some e, s4) \<Rightarrow>
          (if is_NotFound e then (success, s4)
           else (False,
                 logger WARNING (''Failed to remove network '' @ take 12 network_id @ '': '' @ docker_str e) s4)))"

definition stop_container_group :: "runtime \<Rightarrow> sg_args \<Rightarrow> state \<Rightarrow> (error + bool) \<times> state" where
  "stop_container_group rt a s =
     (case is_connected rt s of
        (False, s1) \<Rightarrow> (Inr False, logger WARNING ''Docker not connected, cannot stop container group'' s1)
      | (True, s1) \<Rightarrow>
          (let s2 = (case sg_host_port a of
                       None \<Rightarrow> s1
                     | Some host_port \<Rightarrow>
                         if host_port \<noteq> 0 then stop_serve rt (sg_tailnet_container a) host_port s1 else s1)
           in case stop_group_containers rt (case sg_container_ids a of None \<Rightarrow> [] | Some ids \<Rightarrow> ids) True s2 of
                (success, s3) \<Rightarrow>
                  (case sg_network_id a of
                     None \<Rightarrow> (Inr success, s3)
                   | Some network_id \<Rightarrow>
                       if network_id \<noteq> [] then
                         (case stop_group_network rt (sg_tailnet_container a) network_id success s3 of
                            (success', s4) \<Rightarrow> (Inr success', s4))
                       else (Inr success, s3))))"

section \<open>Reading the trace\<close>

text \<open>
  The properties below are stated on the calls that a method adds to the trace.
  \<open>new_events s s'\<close> are the calls made between the states \<open>s\<close> and \<open>s'\<close>, \<open>run_calls\<close> the
  arguments of the \<open>containers.run\<close> calls among them.
\<close>

definition new_events :: "state \<Rightarrow> state \<Rightarrow> event list" where
  "new_events s s' = drop (length (st_trace s)) (st_trace s')"

fun run_call :: "event \<Rightarrow> run_args list" where
  "run_call (EvRun a r) = [a]"
| "run_call ev = []"

definition run_calls :: "event list \<Rightarrow> run_args list" where
  "run_calls evs = concat (map run_call evs)"

text \<open>
  A runtime that accepts every call: it is used, with single answers replaced, for the
  concrete runs below.
\<close>

definition rt_ok :: runtime where
  "rt_ok =
     \<lparr>rt_ping = (\<lambda>tr. None),
      rt_run = (\<lambda>tr a. Inr \<lparr>c_id = ''id-'' @ str_opt (ra_name a), c_status = ''created'', c_labels = ra_labels a\<rparr>),
      rt_get = (\<lambda>tr i. Inr \<lparr>c_id = i, c_status = ''running'', c_labels = []\<rparr>),
      rt_stop = (\<lambda>tr c t. None),
      rt_remove = (\<lambda>tr c. None),
      rt_exec = (\<lambda>tr c cmd. Inr (0, Utf8 ''ok'')),
      rt_containers = (\<lambda>tr. []),
      rt_list_error = (\<lambda>tr. None),
      rt_net_create = (\<lambda>tr a. Inr \<lparr>n_id = ''net-'' @ na_name a, n_name = na_name a\<rparr>),
      rt_net_get = (\<lambda>tr i. Inr \<lparr>n_id = i, n_name = i\<rparr>),
      rt_net_remove = (\<lambda>tr n. None),
      rt_net_connect = (\<lambda>tr n c. None),
      rt_net_disconnect = (\<lambda>tr n c. None)\<rparr>"

definition s0 :: state where
  "s0 = \<lparr>st_client = True, st_trace = [], st_log = []\<rparr>"

definition cc_default :: "string \<Rightarrow> cc_args" where
  "cc_default img =
     \<lparr>cc_image = img, cc_internal_port = None, cc_host_port = None, cc_ports = None,
      cc_command = None, cc_environment = None, cc_memory_limit = ''512m'', cc_cpu_limit = 1 / 2,
      cc_pids_limit = 100, cc_labels = None, cc_name = None, cc_network = None,
      cc_use_traefik = False, cc_network_mode = None\<rparr>"

text \<open>
  The containers on which \<open>stop\<close> was called, those whose \<open>stop\<close> succeeded, and those on
  which \<open>remove\<close> was called, in the order of the calls.
\<close>

fun stop_target :: "event \<Rightarrow> container list" where
  "stop_target (EvStop c t r) = [c]"
| "stop_target ev = []"

fun stop_ok_target :: "event \<Rightarrow> container list" where
  "stop_ok_target (EvStop c t None) = [c]"
| "stop_ok_target ev = []"

fun remove_target :: "event \<Rightarrow> container list" where
  "remove_target (EvRemove c r) = [c]"
| "remove_target ev = []"

definition stopped :: "event list \<Rightarrow> container list" where
  "stopped evs = concat (map stop_target evs)"

definition stopped_ok :: "event list \<Rightarrow> container list" where
  "stopped_ok evs = concat (map stop_ok_target evs)"

definition removed :: "event list \<Rightarrow> container list" where
  "removed evs = concat (map remove_target evs)"

text \<open>A container bears the management label.\<close>

definition managed :: "container \<Rightarrow> bool" where
  "managed c = (dict_get (c_labels c) ''ctfd.managed'' = Some ''true'')"

text \<open>
  The calls of one \<open>c.stop(timeout=t); c.remove()\<close> inside \<open>try: ... except: pass\<close>: a
  failed \<open>stop\<close>, or a successful \<open>stop\<close> followed by \<open>remove\<close>.
\<close>

fun stop_attempt :: "container \<Rightarrow> int \<Rightarrow> event list \<Rightarrow> bool" where
  "stop_attempt c t [EvStop c' t' (Some e)] = (c' = c \<and> t' = t)"
| "stop_attempt c t [EvStop c' t' None, EvRemove c'' r] = (c' = c \<and> t' = t \<and> c'' = c)"
| "stop_attempt c t evs = False"

text \<open>
  What a sequence of calls has created: the containers that \<open>containers.run\<close> returned,
  the network that \<open>networks.create\<close> returned, whether a \<open>network.connect\<close> succeeded, and
  whether a command run in the relay exited with 0 (the only command that the creation of
  a group runs there is the one that binds the route).
\<close>

fun run_ok :: "event \<Rightarrow> container list" where
  "run_ok (EvRun a (Inr c)) = [c]"
| "run_ok ev = []"

definition run_oks :: "event list \<Rightarrow> container list" where
  "run_oks evs = concat (map run_ok evs)"

fun net_ok :: "event \<Rightarrow> network list" where
  "net_ok (EvNetCreate a (Inr n)) = [n]"
| "net_ok ev = []"

definition created_network :: "event list \<Rightarrow> network option" where
  "created_network evs = (case concat (map net_ok evs) of [] \<Rightarrow> None | n # ns \<Rightarrow> Some n)"

fun connect_ok :: "event \<Rightarrow> bool" where
  "connect_ok (EvNetConnect n c None) = True"
| "connect_ok ev = False"

definition joined :: "event list \<Rightarrow> bool" where
  "joined evs = list_ex connect_ok evs"

fun serve_ok :: "event \<Rightarrow> bool" where
  "serve_ok (EvExec c cmd (Inr (exit_code, out))) = (exit_code = 0)"
| "serve_ok ev = False"

definition bound :: "event list \<Rightarrow> bool" where
  "bound evs = list_ex serve_ok evs"

text \<open>
  The shape of each compensation step: looking the relay up and, if it is found, running
  the \<open>off\<close> command or disconnecting it; one stop-and-remove attempt per container, with
  timeout 3; one removal of the network.
\<close>

fun unbind_attempt :: "string \<Rightarrow> int \<Rightarrow> event list \<Rightarrow> bool" where
  "unbind_attempt relay port [EvGet i (Inl e)] = (i = relay)"
| "unbind_attempt relay port [EvGet i (Inr c), EvExec c' cmd r] = (i = relay \<and> c' = c \<and> cmd = serve_off_cmd port)"
| "unbind_attempt relay port evs = False"

fun disconnect_attempt :: "string \<Rightarrow> network \<Rightarrow> event list \<Rightarrow> bool" where
  "disconnect_attempt relay n [EvGet i (Inl e)] = (i = relay)"
| "disconnect_attempt relay n [EvGet i (Inr c), EvNetDisconnect n' c' r] = (i = relay \<and> c' = c \<and> n' = n)"
| "disconnect_attempt relay n evs = False"

fun stop_attempts :: "container list \<Rightarrow> event list \<Rightarrow> bool" where
  "stop_attempts [] evs = (evs = [])"
| "stop_attempts (c # cs) (EvStop c' t (Some e) # evs) = (c' = c \<and> t = 3 \<and> stop_attempts cs evs)"
| "stop_attempts (c # cs) (EvStop c' t None # EvRemove c'' r # evs) =
     (c' = c \<and> t = 3 \<and> c'' = c \<and> stop_attempts cs evs)"
| "stop_attempts (c # cs) evs = False"

fun network_removal :: "network \<Rightarrow> event list \<Rightarrow> bool" where
  "network_removal n [EvNetRemove n' r] = (n' = n)"
| "network_removal n evs = False"

text \<open>
  \<open>accounts hp loc evs loc'\<close>: the local variables \<open>loc'\<close> are \<open>loc\<close> updated by exactly what
  the calls \<open>evs\<close> created.
\<close>

definition accounts :: "int \<Rightarrow> locals \<Rightarrow> event list \<Rightarrow> locals \<Rightarrow> bool" where
  "accounts hp loc evs loc' \<longleftrightarrow>
     created_containers loc' = created_containers loc @ run_oks evs
   \<and> lc_network loc' = (case lc_network loc of Some n \<Rightarrow> Some n | None \<Rightarrow> created_network evs)
   \<and> ts_connected loc' = (ts_connected loc \<or> joined evs)
   \<and> ts_serve_port loc' = (if bound evs then Some hp else ts_serve_port loc)"

text \<open>Runtimes and arguments of the concrete runs.\<close>

definition rt_gone :: runtime where
  "rt_gone = rt_ok\<lparr>rt_get := (\<lambda>tr i. Inl (NotFound ''No such container'')),
                  rt_net_get := (\<lambda>tr i. Inl (NotFound ''No such network''))\<rparr>"

definition rt_in_use :: runtime where
  "rt_in_use = rt_ok\<lparr>rt_net_remove := (\<lambda>tr n. Some (APIError ''network has active endpoints''))\<rparr>"

definition cc_multi :: cc_args where
  "cc_multi = (cc_default ''nginx'')\<lparr>cc_ports := Some [(''80'', 30001), (''22'', 30002)]\<rparr>"

definition cc_shared :: cc_args where
  "cc_shared = (cc_default ''nginx'')
     \<lparr>cc_internal_port := Some 80, cc_host_port := Some 30001, cc_ports := Some [(''80'', 30001)],
      cc_network := Some ''ctfd-net'', cc_network_mode := Some ''container:tailscale-challenges''\<rparr>"

definition sg_example :: sg_args where
  "sg_example = \<lparr>sg_container_ids = Some [''c1'', ''c2''], sg_network_id = Some ''net1'',
                  sg_host_port = Some 30010, sg_tailnet_container = ''tailscale-challenges''\<rparr>"

definition c_orphan :: container where
  "c_orphan = \<lparr>c_id = ''orphan'', c_status = ''running'',
               c_labels = [(''ctfd.managed'', ''true''), (''ctfd.instance_uuid'', ''u9'')]\<rparr>"

definition c_live :: container where
  "c_live = \<lparr>c_id = ''live'', c_status = ''running'',
             c_labels = [(''ctfd.managed'', ''true''), (''ctfd.instance_uuid'', ''u1'')]\<rparr>"

definition c_foreign :: container where
  "c_foreign = \<lparr>c_id = ''foreign'', c_status = ''running'', c_labels = [(''ctfd.instance_uuid'', ''u9'')]\<rparr>"

definition c_no_uuid :: container where
  "c_no_uuid = \<lparr>c_id = ''nouuid'', c_status = ''running'', c_labels = [(''ctfd.managed'', ''true'')]\<rparr>"

definition c_empty_uuid :: container where
  "c_empty_uuid = \<lparr>c_id = ''emptyuuid'', c_status = ''exited'',
                   c_labels = [(''ctfd.managed'', ''true''), (''ctfd.instance_uuid'', '''')]\<rparr>"

definition rt_sweep :: runtime where
  "rt_sweep = rt_ok\<lparr>rt_containers := (\<lambda>tr. [c_orphan, c_live, c_foreign, c_no_uuid, c_empty_uuid])\<rparr>"

fun exec_call :: "event \<Rightarrow> (string \<times> (docker_error + int \<times> bytes)) list" where
  "exec_call (EvExec c cmd r) = [(cmd, r)]"
| "exec_call ev = []"

definition exec_calls :: "event list \<Rightarrow> (string \<times> (docker_error + int \<times> bytes)) list" where
  "exec_calls evs = concat (map exec_call evs)"

definition cd_db :: container_def where
  "cd_db = \<lparr>cd_name = Some ''db'', cd_image = Some ''postgres'', cd_command = None,
            cd_environment = None, cd_expose = False\<rparr>"

definition cd_web :: container_def where
  "cd_web = \<lparr>cd_name = Some ''web'', cd_image = Some ''nginx'', cd_command = None,
             cd_environment = None, cd_expose = True\<rparr>"


definition cg_example :: cg_args where
  "cg_example =
     \<lparr>cg_containers_config = [cd_db, cd_web], cg_network_name = ''grp-net'', cg_entry_port = 8080,
      cg_host_port = 30010, cg_flag = ''FLAG{x}'', cg_labels = None, cg_name_prefix = ''g'',
      cg_memory_limit = ''512m'', cg_cpu_limit = 1 / 2, cg_pids_limit = 100,
      cg_connection_host = ''localhost'', cg_tailnet_container = ''tailscale-challenges''\<rparr>"

definition cg_port0 :: cg_args where
  "cg_port0 = cg_example\<lparr>cg_host_port := 0\<rparr>"



definition rt_bad_output :: runtime where
  "rt_bad_output = rt_ok\<lparr>rt_exec := (\<lambda>tr c cmd. Inr (0, Undecodable))\<rparr>"

text \<open>
  The trace is a faithful record: \<open>answered rt tr evs\<close> says that every call of \<open>evs\<close>,
  made after the calls \<open>tr\<close>, carries the answer that the runtime \<open>rt\<close> gives at that moment.
\<close>

fun event_ok :: "runtime \<Rightarrow> event list \<Rightarrow> event \<Rightarrow> bool" where
  "event_ok rt tr (EvPing r) = (r = rt_ping rt tr)"
| "event_ok rt tr (EvRun a r) = (r = rt_run rt tr a)"
| "event_ok rt tr (EvGet i r) = (r = rt_get rt tr i)"
| "event_ok rt tr (EvStop c t r) = (r = rt_stop rt tr c t)"
| "event_ok rt tr (EvRemove c r) = (r = rt_remove rt tr c)"
| "event_ok rt tr (EvExec c cmd r) = (r = rt_exec rt tr c cmd)"
| "event_ok rt tr (EvList all f r) =
     (r = (case rt_list_error rt tr of
             Some e \<Rightarrow> Inl e
           | None \<Rightarrow> Inr (filter (\<lambda>c. label_filter f c \<and> (all \<or> c_status c = ''running''))
                               (rt_containers rt tr))))"
| "event_ok rt tr (EvNetCreate a r) = (r = rt_net_create rt tr a)"
| "event_ok rt tr (EvNetGet i r) = (r = rt_net_get rt tr i)"
| "event_ok rt tr (EvNetRemove n r) = (r = rt_net_remove rt tr n)"
| "event_ok rt tr (EvNetConnect n c r) = (r = rt_net_connect rt tr n c)"
| "event_ok rt tr (EvNetDisconnect n c r) = (r = rt_net_disconnect rt tr n c)"

fun answered :: "runtime \<Rightarrow> event list \<Rightarrow> event list \<Rightarrow> bool" where
  "answered rt tr [] = True"
| "answered rt tr (ev # evs) = (event_ok rt tr ev \<and> answered rt (tr @ [ev]) evs)"

text \<open>
  The calls of the loop over the container ids in \<open>stop_container_group\<close> (and of
  \<open>stop_container\<close>, for one id): for every id in order, a failed lookup, or a lookup and
  a failed \<open>stop\<close> with timeout 3, or a lookup, a \<open>stop\<close> and a \<open>remove\<close>.
\<close>

fun get_failed :: "string \<Rightarrow> event \<Rightarrow> bool" where
  "get_failed i (EvGet j (Inl e)) = (j = i)"
| "get_failed i ev = False"

fun got :: "string \<Rightarrow> event \<Rightarrow> container option" where
  "got i (EvGet j (Inr c)) = (if j = i then Some c else None)"
| "got i ev = None"

fun stop_failed :: "container \<Rightarrow> event \<Rightarrow> bool" where
  "stop_failed c (EvStop c' t (Some e)) = (c' = c \<and> t = 3)"
| "stop_failed c ev = False"

fun stop_done :: "container \<Rightarrow> event \<Rightarrow> bool" where
  "stop_done c (EvStop c' t None) = (c' = c \<and> t = 3)"
| "stop_done c ev = False"

fun remove_of :: "container \<Rightarrow> event \<Rightarrow> bool" where
  "remove_of c (EvRemove c' r) = (c' = c)"
| "remove_of c ev = False"

fun id_attempts :: "string list \<Rightarrow> event list \<Rightarrow> bool" where
  "id_attempts [] evs = (evs = [])"
| "id_attempts (i # ids) [] = False"
| "id_attempts (i # ids) (a # rest) =
     (if get_failed i a then id_attempts ids rest
      else (case got i a of
              None \<Rightarrow> False
            | Some c \<Rightarrow>
                (case rest of
                   [] \<Rightarrow> False
                 | b # rest2 \<Rightarrow>
                     if stop_failed c b then id_attempts ids rest2
                     else stop_done c b \<and>
                          (case rest2 of
                             [] \<Rightarrow> False
                           | d # rest3 \<Rightarrow> remove_of c d \<and> id_attempts ids rest3))))"

text \<open>
  The answers that count as a failure of the teardown: an exception other than not-found
  from the lookup, the \<open>stop\<close> or the \<open>remove\<close> of a container, and from the lookup or the
  removal of the network.
\<close>

fun stop_failure :: "event \<Rightarrow> bool" where
  "stop_failure (EvGet i (Inl e)) = (\<not> is_NotFound e)"
| "stop_failure (EvStop c t (Some e)) = (\<not> is_NotFound e)"
| "stop_failure (EvRemove c (Some e)) = (\<not> is_NotFound e)"
| "stop_failure ev = False"

fun net_failure :: "event \<Rightarrow> bool" where
  "net_failure (EvNetGet i (Inl e)) = (\<not> is_NotFound e)"
| "net_failure (EvNetRemove n (Some e)) = (\<not> is_NotFound e)"
| "net_failure ev = False"

text \<open>
  The calls of the network step of \<open>stop_container_group\<close>: a failed lookup of the
  network, or the lookup, the attempt to disconnect the relay (its lookup, then the
  disconnect) and the removal.
\<close>

fun net_get_failed :: "string \<Rightarrow> event \<Rightarrow> bool" where
  "net_get_failed i (EvNetGet j (Inl e)) = (j = i)"
| "net_get_failed i ev = False"

fun net_got :: "string \<Rightarrow> event \<Rightarrow> network option" where
  "net_got i (EvNetGet j (Inr n)) = (if j = i then Some n else None)"
| "net_got i ev = None"

fun disconnect_of :: "network \<Rightarrow> container \<Rightarrow> event \<Rightarrow> bool" where
  "disconnect_of n c (EvNetDisconnect n' c' r) = (n' = n \<and> c' = c)"
| "disconnect_of n c ev = False"

fun net_remove_of :: "network \<Rightarrow> event \<Rightarrow> bool" where
  "net_remove_of n (EvNetRemove n' r) = (n' = n)"
| "net_remove_of n ev = False"

definition network_teardown :: "string \<Rightarrow> string \<Rightarrow> event list \<Rightarrow> bool" where
  "network_teardown relay nid evs =
     (case evs of
        [a] \<Rightarrow> net_get_failed nid a
      | [a, b, c] \<Rightarrow>
          (case net_got nid a of
             None \<Rightarrow> False
           | Some n \<Rightarrow> get_failed relay b \<and> net_remove_of n c)
      | [a, b, c, d] \<Rightarrow>
          (case net_got nid a of
             None \<Rightarrow> False
           | Some n \<Rightarrow>
               (case got relay b of
                  None \<Rightarrow> False
                | Some ts \<Rightarrow> disconnect_of n ts c \<and> net_remove_of n d))
      | _ \<Rightarrow> False)"




definition rt_stuck :: runtime where
  "rt_stuck = rt_ok\<lparr>rt_stop := (\<lambda>tr c t. Some (APIError ''cannot stop container''))\<rparr>"

section \<open>Auxiliary lemmas\<close>

lemmas op_defs = ping_def containers_run_def containers_get_def container_stop_def
  container_remove_def exec_run_def containers_list_def networks_create_def networks_get_def
  network_remove_def network_connect_def network_disconnect_def emit_def logger_def Let_def

subsection \<open>Single operations\<close>

lemma is_connected_ok:
  "st_client s \<Longrightarrow> rt_ping rt (st_trace s) = None \<Longrightarrow> is_connected rt s = (True, emit (EvPing None) s)"
  by (simp add: is_connected_def ping_def Let_def)

lemma new_events_append: "st_trace s' = st_trace s @ evs \<Longrightarrow> new_events s s' = evs"
  by (simp add: new_events_def)

lemma stop_container_total: "\<exists>b. fst (stop_container rt cid s) = Inr b"
  by (auto simp: stop_container_def split: prod.splits bool.splits option.splits)

lemma stop_container_result:
  assumes "st_client s" and "rt_ping rt (st_trace s) = None"
  shows "fst (stop_container rt cid s)
         = Inr (case fst (get_stop_remove rt cid 3 (emit (EvPing None) s)) of
                  None \<Rightarrow> True | Some e \<Rightarrow> is_NotFound e)"
  using assms by (simp add: stop_container_def is_connected_ok split: prod.splits option.splits)

lemma stop_remove_log: "stop_remove rt c t s = (r, s') \<Longrightarrow> st_log s' = st_log s"
  by (auto simp: stop_remove_def container_stop_def container_remove_def emit_def Let_def split: option.splits)

lemma get_stop_remove_log: "get_stop_remove rt i t s = (r, s') \<Longrightarrow> st_log s' = st_log s"
  by (auto simp: get_stop_remove_def containers_get_def emit_def Let_def split: sum.splits dest: stop_remove_log)

lemma stop_container_log:
  assumes "st_client s" and "rt_ping rt (st_trace s) = None"
  shows "map fst (st_log (snd (stop_container rt cid s)))
         = map fst (st_log s) @
           [case fst (get_stop_remove rt cid 3 (emit (EvPing None) s)) of
              None \<Rightarrow> INFO | Some e \<Rightarrow> if is_NotFound e then INFO else ERROR]"
  using assms
proof -
  obtain r s2 where g: "get_stop_remove rt cid 3 (emit (EvPing None) s) = (r, s2)"
    by (cases "get_stop_remove rt cid 3 (emit (EvPing None) s)")
  have "st_log s2 = st_log s"
    using get_stop_remove_log[OF g] by (simp add: emit_def)
  then show ?thesis
    using assms g
    by (auto simp: stop_container_def is_connected_ok logger_def split: option.splits)
qed

lemma get_stop_remove_not_found:
  "rt_get rt (st_trace s) cid = Inl e \<Longrightarrow> get_stop_remove rt cid t s = (Some e, emit (EvGet cid (Inl e)) s)"
  by (simp add: get_stop_remove_def containers_get_def Let_def)

lemma stop_group_containers_not_found:
  assumes "\<forall>tr. \<forall>cid \<in> set cids. \<exists>e. rt_get rt tr cid = Inl e \<and> is_NotFound e"
  shows "fst (stop_group_containers rt cids success s) = success"
  using assms
proof (induction cids arbitrary: s)
  case Nil
  then show ?case by simp
next
  case (Cons cid cids)
  from Cons.prems obtain e where e: "rt_get rt (st_trace s) cid = Inl e" "is_NotFound e"
    by (metis list.set_intros(1))
  from Cons.prems have rest: "\<forall>tr. \<forall>cid \<in> set cids. \<exists>e. rt_get rt tr cid = Inl e \<and> is_NotFound e"
    by simp
  show ?case
    using e Cons.IH[OF rest] by (simp add: get_stop_remove_not_found)
qed

lemma stop_container_group_total: "\<exists>b. fst (stop_container_group rt a s) = Inr b"
  by (auto simp: stop_container_group_def Let_def split: prod.splits bool.splits option.splits)

lemma stop_group_network_in_use:
  assumes "\<forall>tr. rt_net_get rt tr nid = Inr n" and "\<forall>tr. rt_net_remove rt tr n = Some e" and "\<not> is_NotFound e"
  shows "fst (stop_group_network rt tn nid success s) = False
       \<and> last (st_log (snd (stop_group_network rt tn nid success s)))
           = (WARNING, ''Failed to remove network '' @ take 12 nid @ '': '' @ docker_str e)"
  using assms
  by (simp add: stop_group_network_def networks_get_def network_remove_def logger_def Let_def
           split: prod.splits sum.splits option.splits)

lemma create_network_existing:
  assumes "st_client s" and "rt_ping rt (st_trace s) = None"
      and "rt_net_get rt (st_trace s @ [EvPing None]) name = Inr n"
  shows "create_network rt name internal driver options s
         = (Inr True, s\<lparr>st_trace := st_trace s @ [EvPing None, EvNetGet name (Inr n)]\<rparr>)"
  using assms by (simp add: create_network_def is_connected_ok networks_get_def emit_def Let_def)

lemma remove_network_total: "\<exists>b. fst (remove_network rt name s) = Inr b"
  by (auto simp: remove_network_def split: prod.splits bool.splits option.splits)

lemma remove_network_not_found:
  assumes "st_client s" and "rt_ping rt (st_trace s) = None"
      and "rt_net_get rt (st_trace s @ [EvPing None]) name = Inl e" and "is_NotFound e"
  shows "fst (remove_network rt name s) = Inr True"
  using assms by (simp add: remove_network_def is_connected_ok networks_get_def emit_def Let_def)

lemma remove_network_in_use:
  assumes "st_client s" and "rt_ping rt (st_trace s) = None"
      and "rt_net_get rt (st_trace s @ [EvPing None]) name = Inr n"
      and "rt_net_remove rt (st_trace s @ [EvPing None, EvNetGet name (Inr n)]) n = Some e"
      and "\<not> is_NotFound e"
  shows "remove_network rt name s
         = (Inr False,
            \<lparr>st_client = st_client s,
             st_trace = st_trace s @ [EvPing None, EvNetGet name (Inr n), EvNetRemove n (Some e)],
             st_log = st_log s @ [(WARNING, ''Failed to remove network '' @ name @ '' (might be in use): '' @ docker_str e)]\<rparr>)"
  using assms by (simp add: remove_network_def is_connected_ok networks_get_def network_remove_def emit_def logger_def Let_def)

subsection \<open>The loop of the sweep\<close>

lemma label_filter_managed: "label_filter ''ctfd.managed=true'' c = managed c"
  by (simp add: label_filter_def managed_def Let_def)

lemma stopped_append [simp]: "stopped (xs @ ys) = stopped xs @ stopped ys"
  by (simp add: stopped_def)

lemma stopped_ok_append [simp]: "stopped_ok (xs @ ys) = stopped_ok xs @ stopped_ok ys"
  by (simp add: stopped_ok_def)

lemma removed_append [simp]: "removed (xs @ ys) = removed xs @ removed ys"
  by (simp add: removed_def)

lemma stop_remove_trace:
  "\<exists>evs. st_trace (snd (stop_remove rt c t s)) = st_trace s @ evs \<and> stop_attempt c t evs"
  by (auto simp: stop_remove_def container_stop_def container_remove_def emit_def Let_def split: option.splits)

lemma stop_attempt_proj:
  "stop_attempt c t evs \<Longrightarrow> stopped evs = [c] \<and> removed evs = stopped_ok evs
      \<and> length evs = length (stopped evs) + length (removed evs)"
  by (induction c t evs rule: stop_attempt.induct) (auto simp: stopped_def removed_def stopped_ok_def)

lemma cleanup_loop_trace:
  "\<exists>rest. st_trace (cleanup_loop rt uuids cs s) = st_trace s @ rest
         \<and> stopped rest = filter (orphaned uuids) cs
         \<and> removed rest = stopped_ok rest
         \<and> length rest = length (stopped rest) + length (removed rest)"
proof (induction cs arbitrary: s)
  case Nil
  show ?case by (simp add: stopped_def removed_def stopped_ok_def)
next
  case (Cons c cs)
  show ?case
  proof (cases "orphaned uuids c")
    case False
    then show ?thesis using Cons.IH[of s] by simp
  next
    case True
    let ?s1 = "logger INFO (''Cleaning up orphaned container '' @ take 12 (c_id c)) s"
    let ?s2 = "snd (stop_remove rt c 5 ?s1)"
    obtain evs where evs: "st_trace ?s2 = st_trace ?s1 @ evs" "stop_attempt c 5 evs"
      using stop_remove_trace by blast
    obtain rest where rest: "st_trace (cleanup_loop rt uuids cs ?s2) = st_trace ?s2 @ rest"
        "stopped rest = filter (orphaned uuids) cs" "removed rest = stopped_ok rest"
        "length rest = length (stopped rest) + length (removed rest)"
      using Cons.IH[of ?s2] by blast
    have s1: "st_trace ?s1 = st_trace s" by (simp add: logger_def)
    have "st_trace (cleanup_loop rt uuids (c # cs) s) = st_trace s @ (evs @ rest)"
      using True evs(1) rest(1) s1 by simp
    moreover have "stopped (evs @ rest) = filter (orphaned uuids) (c # cs)"
      using True stop_attempt_proj[OF evs(2)] rest(2) by simp
    moreover have "removed (evs @ rest) = stopped_ok (evs @ rest)"
      using stop_attempt_proj[OF evs(2)] rest(3) by simp
    moreover have "length (evs @ rest) = length (stopped (evs @ rest)) + length (removed (evs @ rest))"
      using stop_attempt_proj[OF evs(2)] rest(4) by simp
    ultimately show ?thesis by blast
  qed
qed

subsection \<open>What the body of a group creation has created\<close>

lemma run_oks_append [simp]: "run_oks (xs @ ys) = run_oks xs @ run_oks ys"
  by (simp add: run_oks_def)

lemma joined_append [simp]: "joined (xs @ ys) = (joined xs \<or> joined ys)"
  by (simp add: joined_def)

lemma bound_append [simp]: "bound (xs @ ys) = (bound xs \<or> bound ys)"
  by (simp add: bound_def)

lemma first_append:
  "(case A @ B of [] \<Rightarrow> None | n # ns \<Rightarrow> Some n)
   = (case (case A of [] \<Rightarrow> None | n # ns \<Rightarrow> Some n) of
        Some n \<Rightarrow> Some n
      | None \<Rightarrow> (case B of [] \<Rightarrow> None | n # ns \<Rightarrow> Some n))"
  by (cases A) simp_all

lemma created_network_append:
  "created_network (xs @ ys) = (case created_network xs of Some n \<Rightarrow> Some n | None \<Rightarrow> created_network ys)"
  unfolding created_network_def map_append concat_append by (rule first_append)

lemma accounts_refl: "accounts hp loc [] loc"
  by (simp add: accounts_def run_oks_def joined_def bound_def created_network_def split: option.splits)

lemma accounts_trans:
  "accounts hp l0 e1 l1 \<Longrightarrow> accounts hp l1 e2 l2 \<Longrightarrow> accounts hp l0 (e1 @ e2) l2"
  by (auto simp: accounts_def created_network_append split: option.splits)

lemma create_member_acc:
  assumes "create_member rt a entry c_def loc s = (r, loc', s')"
  shows "\<exists>evs. st_trace s' = st_trace s @ evs \<and> accounts hp loc evs loc'"
proof (cases "cd_name c_def")
  case None
  with assms have "st_trace s' = st_trace s @ []" "loc' = loc" by (simp_all add: create_member_def)
  then show ?thesis using accounts_refl by blast
next
  case (Some name)
  show ?thesis
  proof (cases "cd_image c_def")
    case None
    with assms Some have "st_trace s' = st_trace s @ []" "loc' = loc" by (simp_all add: create_member_def)
    then show ?thesis using accounts_refl by blast
  next
    case (Some img)
    let ?ra = "member_run_args a entry name img c_def"
    let ?r = "rt_run rt (st_trace s) ?ra"
    have "st_trace s' = st_trace s @ [EvRun ?ra ?r] \<and> accounts hp loc [EvRun ?ra ?r] loc'"
      using assms \<open>cd_name c_def = Some name\<close> Some
      by (cases ?r)
         (auto simp: create_member_def containers_run_def Let_def emit_def logger_def accounts_def
                     run_oks_def joined_def bound_def created_network_def split: option.splits)
    then show ?thesis by blast
  qed
qed

lemma create_internals_acc:
  "create_internals rt a entry_idx xs loc s = (r, loc', s')
   \<Longrightarrow> \<exists>evs. st_trace s' = st_trace s @ evs \<and> accounts hp loc evs loc'"
proof (induction xs arbitrary: loc s)
  case Nil
  then have "st_trace s' = st_trace s @ []" "loc' = loc" by simp_all
  then show ?case using accounts_refl by blast
next
  case (Cons x xs)
  obtain i c_def where x: "x = (i, c_def)" by (cases x)
  show ?case
  proof (cases "i = entry_idx")
    case True
    with Cons.prems x have "create_internals rt a entry_idx xs loc s = (r, loc', s')" by simp
    from Cons.IH[OF this] show ?thesis .
  next
    case False
    obtain r1 loc1 s1 where m: "create_member rt a False c_def loc s = (r1, loc1, s1)"
      by (cases "create_member rt a False c_def loc s") auto
    from create_member_acc[OF m] obtain e1 where e1: "st_trace s1 = st_trace s @ e1" "accounts hp loc e1 loc1"
      by blast
    show ?thesis
    proof (cases r1)
      case (Inl e)
      with Cons.prems x False m have "loc' = loc1" "s' = s1" by simp_all
      with e1 show ?thesis by blast
    next
      case (Inr c)
      with Cons.prems x False m have "create_internals rt a entry_idx xs loc1 s1 = (r, loc', s')" by simp
      from Cons.IH[OF this] obtain e2 where e2: "st_trace s' = st_trace s1 @ e2" "accounts hp loc1 e2 loc'"
        by blast
      have "st_trace s' = st_trace s @ (e1 @ e2)" using e1(1) e2(1) by simp
      with accounts_trans[OF e1(2) e2(2)] show ?thesis by blast
    qed
  qed
qed

lemma stop_group_network_not_found:
  assumes "\<forall>tr. \<exists>e. rt_net_get rt tr nid = Inl e \<and> is_NotFound e"
  shows "fst (stop_group_network rt tn nid success s) = success"
proof -
  from assms obtain e where "rt_net_get rt (st_trace s) nid = Inl e" "is_NotFound e" by blast
  then show ?thesis by (simp add: stop_group_network_def networks_get_def Let_def)
qed

lemma stop_container_group_not_found:
  assumes "st_client s \<and> rt_ping rt (st_trace s) = None"
      and "(\<forall>tr. \<forall>c \<in> set (case sg_container_ids a of None \<Rightarrow> [] | Some ids \<Rightarrow> ids).
                \<exists>e. rt_get rt tr c = Inl e \<and> is_NotFound e)
           \<and> (\<forall>tr nid. sg_network_id a = Some nid \<longrightarrow> (\<exists>e. rt_net_get rt tr nid = Inl e \<and> is_NotFound e))"
  shows "fst (stop_container_group rt a s) = Inr True"
proof -
  let ?ids = "case sg_container_ids a of None \<Rightarrow> [] | Some ids \<Rightarrow> ids"
  from assms(2) have ids: "\<forall>tr. \<forall>c \<in> set ?ids. \<exists>e. rt_get rt tr c = Inl e \<and> is_NotFound e"
    by blast
  have loop: "\<And>s'. fst (stop_group_containers rt ?ids True s') = True"
    by (rule stop_group_containers_not_found[OF ids])
  have net: "\<And>nid s'. sg_network_id a = Some nid \<Longrightarrow> fst (stop_group_network rt (sg_tailnet_container a) nid True s') = True"
    using assms(2) by (intro stop_group_network_not_found) blast
  obtain s1 where c: "is_connected rt s = (True, s1)"
    using assms(1) is_connected_ok by blast
  define s2 where "s2 = (case sg_host_port a of None \<Rightarrow> s1
        | Some host_port \<Rightarrow> if host_port \<noteq> 0 then stop_serve rt (sg_tailnet_container a) host_port s1 else s1)"
  obtain b s3 where l: "stop_group_containers rt ?ids True s2 = (b, s3)"
    by (cases "stop_group_containers rt ?ids True s2")
  from loop[of s2] l have b: "b = True" by simp
  show ?thesis
  proof (cases "sg_network_id a")
    case None
    then show ?thesis
      using l[unfolded s2_def] b by (simp add: stop_container_group_def c Let_def)
  next
    case (Some nid)
    obtain b' s4 where n: "stop_group_network rt (sg_tailnet_container a) nid True s3 = (b', s4)"
      by (cases "stop_group_network rt (sg_tailnet_container a) nid True s3")
    from net[OF Some, of s3] n have "b' = True" by simp
    then show ?thesis
      using l[unfolded s2_def] b n Some by (simp add: stop_container_group_def c Let_def)
  qed
qed

lemma stop_container_group_in_use:
  assumes "st_client s" and "rt_ping rt (st_trace s) = None"
      and "sg_network_id a = Some nid" and "nid \<noteq> []"
      and "\<forall>tr. rt_net_get rt tr nid = Inr n" and "\<forall>tr. rt_net_remove rt tr n = Some e"
      and "\<not> is_NotFound e"
  shows "fst (stop_container_group rt a s) = Inr False
       \<and> last (st_log (snd (stop_container_group rt a s)))
            = (WARNING, ''Failed to remove network '' @ take 12 nid @ '': '' @ docker_str e)"
proof -
  let ?ids = "case sg_container_ids a of None \<Rightarrow> [] | Some ids \<Rightarrow> ids"
  have c: "is_connected rt s = (True, emit (EvPing None) s)"
    using assms(1,2) by (rule is_connected_ok)
  define s2 where "s2 = (case sg_host_port a of None \<Rightarrow> emit (EvPing None) s
        | Some host_port \<Rightarrow> if host_port \<noteq> 0
             then stop_serve rt (sg_tailnet_container a) host_port (emit (EvPing None) s)
             else emit (EvPing None) s)"
  obtain b s3 where l: "stop_group_containers rt ?ids True s2 = (b, s3)"
    by (cases "stop_group_containers rt ?ids True s2")
  obtain b' s4 where n: "stop_group_network rt (sg_tailnet_container a) nid b s3 = (b', s4)"
    by (cases "stop_group_network rt (sg_tailnet_container a) nid b s3")
  from stop_group_network_in_use[OF assms(5,6,7), of "sg_tailnet_container a" b s3] n
  have r: "b' = False"
       "last (st_log s4) = (WARNING, ''Failed to remove network '' @ take 12 nid @ '': '' @ docker_str e)"
    by simp_all
  have "stop_container_group rt a s = (Inr b', s4)"
    using l[unfolded s2_def] n assms(3,4) by (simp add: stop_container_group_def c Let_def)
  with r show ?thesis by simp
qed

lemma attach_relay_acc:
  assumes "attach_relay rt a network entry_name entry_container loc s = (r, loc', s')"
  shows "\<exists>evs. st_trace s' = st_trace s @ evs \<and> accounts (cg_host_port a) loc evs loc'
              \<and> created_network evs = None \<and> run_oks evs = []"
proof -
  let ?hp = "cg_host_port a"
  let ?g = "rt_get rt (st_trace s) (cg_tailnet_container a)"
  show ?thesis
  proof (cases ?g)
    case (Inl e)
    with assms have "st_trace s' = st_trace s @ [EvGet (cg_tailnet_container a) (Inl e)]" "loc' = loc"
      by (auto simp: attach_relay_def containers_get_def Let_def emit_def)
    then show ?thesis
      by (auto simp: accounts_def run_oks_def joined_def bound_def created_network_def split: option.splits)
  next
    case (Inr ts)
    let ?e1 = "EvGet (cg_tailnet_container a) (Inr ts)"
    let ?c = "rt_net_connect rt (st_trace s @ [?e1]) network ts"
    show ?thesis
    proof (cases ?c)
      case (Some e)
      with assms Inr have "st_trace s' = st_trace s @ [?e1, EvNetConnect network ts (Some e)]" "loc' = loc"
        by (auto simp: attach_relay_def containers_get_def network_connect_def Let_def emit_def)
      then show ?thesis
        by (auto simp: accounts_def run_oks_def joined_def bound_def created_network_def split: option.splits)
    next
      case None
      let ?e2 = "EvNetConnect network ts None"
      let ?cmd = "serve_cmd (cg_host_port a) entry_name (cg_entry_port a)"
      let ?x = "rt_exec rt (st_trace s @ [?e1, ?e2]) ts ?cmd"
      have tr: "st_trace s' = st_trace s @ [?e1, ?e2, EvExec ts ?cmd ?x]"
        using assms Inr None
        by (cases ?x)
           (auto simp: attach_relay_def containers_get_def network_connect_def exec_run_def Let_def
                       emit_def logger_def split: sum.splits prod.splits if_splits)
      have acc: "accounts ?hp loc [?e1, ?e2, EvExec ts ?cmd ?x] loc'"
        using assms Inr None
        by (cases ?x)
           (auto simp: attach_relay_def containers_get_def network_connect_def exec_run_def Let_def
                       emit_def logger_def accounts_def run_oks_def joined_def bound_def created_network_def
                 split: sum.splits prod.splits if_splits option.splits)
      have "created_network [?e1, ?e2, EvExec ts ?cmd ?x] = None" "run_oks [?e1, ?e2, EvExec ts ?cmd ?x] = []"
        by (simp_all add: created_network_def run_oks_def)
      with tr acc show ?thesis by blast
    qed
  qed
qed

lemma group_body_acc:
  assumes "group_body rt a init_locals s = (r, loc', s')"
  shows "\<exists>evs. st_trace s' = st_trace s @ evs \<and> accounts (cg_host_port a) init_locals evs loc'
              \<and> (joined evs \<longrightarrow> created_network evs \<noteq> None)"
proof -
  let ?hp = "cg_host_port a"
  let ?na = "group_net_args a"
  let ?n = "rt_net_create rt (st_trace s) ?na"
  show ?thesis
  proof (cases ?n)
    case (Inl e)
    with assms have "st_trace s' = st_trace s @ [EvNetCreate ?na (Inl e)]" "loc' = init_locals"
      by (auto simp: group_body_def networks_create_def Let_def emit_def)
    then show ?thesis
      by (auto simp: accounts_def run_oks_def joined_def bound_def created_network_def split: option.splits)
  next
    case (Inr network)
    let ?e0 = "EvNetCreate ?na (Inr network)"
    let ?loc1 = "init_locals\<lparr>lc_network := Some network\<rparr>"
    let ?s2 = "logger INFO (''Created private network: '' @ cg_network_name a) (emit ?e0 s)"
    have tr2: "st_trace ?s2 = st_trace s @ [?e0]" by (simp add: logger_def emit_def)
    have acc0: "accounts ?hp init_locals [?e0] ?loc1"
      by (simp add: accounts_def init_locals_def run_oks_def joined_def bound_def created_network_def)
    have nc: "networks_create rt ?na s = (Inr network, emit ?e0 s)"
      using Inr by (simp add: networks_create_def Let_def)
    have net: "\<And>evs. created_network ([?e0] @ evs) \<noteq> None"
      by (simp add: created_network_def)
    have fin: "\<exists>evs. st_trace s' = st_trace s @ evs \<and> accounts ?hp init_locals evs loc'
                 \<and> (joined evs \<longrightarrow> created_network evs \<noteq> None)"
      if "st_trace s' = st_trace ?s2 @ rest" and "accounts ?hp ?loc1 rest loc'" for rest
    proof -
      from that(1) tr2 have "st_trace s' = st_trace s @ ([?e0] @ rest)" by simp
      moreover from accounts_trans[OF acc0 that(2)] have "accounts ?hp init_locals ([?e0] @ rest) loc'" .
      ultimately show ?thesis using net by blast
    qed
    show ?thesis
    proof (cases "find_entry 0 (cg_containers_config a)")
      case None
      with assms nc have "s' = ?s2" "loc' = ?loc1"
        by (auto simp: group_body_def Let_def)
      then have "st_trace s' = st_trace ?s2 @ []" "accounts ?hp ?loc1 [] loc'"
        by (simp_all add: accounts_refl)
      then show ?thesis by (rule fin)
    next
      case (Some entry_idx)
      obtain r2 loc2 s3 where ci:
        "create_internals rt a entry_idx (enumerate 0 (cg_containers_config a)) ?loc1 ?s2 = (r2, loc2, s3)"
        by (cases "create_internals rt a entry_idx (enumerate 0 (cg_containers_config a)) ?loc1 ?s2") auto
      from create_internals_acc[OF ci, of ?hp] obtain ev2 where
        ev2: "st_trace s3 = st_trace ?s2 @ ev2" "accounts ?hp ?loc1 ev2 loc2" by blast
      show ?thesis
      proof (cases r2)
        case (Some e)
        with assms nc \<open>find_entry 0 (cg_containers_config a) = Some entry_idx\<close> ci
        have "s' = s3" "loc' = loc2" by (auto simp: group_body_def Let_def)
        with ev2 show ?thesis by (intro fin[of ev2]) simp_all
      next
        case None
        obtain r3 loc3 s4 where cm:
          "create_member rt a True (cg_containers_config a ! entry_idx) loc2 s3 = (r3, loc3, s4)"
          by (cases "create_member rt a True (cg_containers_config a ! entry_idx) loc2 s3") auto
        from create_member_acc[OF cm, of ?hp] obtain ev3 where
          ev3: "st_trace s4 = st_trace s3 @ ev3" "accounts ?hp loc2 ev3 loc3" by blast
        have tr4: "st_trace s4 = st_trace ?s2 @ (ev2 @ ev3)" using ev2(1) ev3(1) by simp
        have acc4: "accounts ?hp ?loc1 (ev2 @ ev3) loc3" by (rule accounts_trans[OF ev2(2) ev3(2)])
        show ?thesis
        proof (cases r3)
          case (Inl e)
          with assms nc \<open>find_entry 0 (cg_containers_config a) = Some entry_idx\<close> ci None cm
          have "s' = s4" "loc' = loc3" by (auto simp: group_body_def Let_def)
          with tr4 acc4 show ?thesis by (intro fin[of "ev2 @ ev3"]) simp_all
        next
          case (Inr p)
          obtain entry_name entry_container where p: "p = (entry_name, entry_container)" by (cases p)
          from assms nc \<open>find_entry 0 (cg_containers_config a) = Some entry_idx\<close> ci None cm Inr p
          have ar: "attach_relay rt a network entry_name entry_container loc3 s4 = (r, loc', s')"
            by (auto simp: group_body_def Let_def)
          from attach_relay_acc[OF ar] obtain ev5 where
            ev5: "st_trace s' = st_trace s4 @ ev5" "accounts ?hp loc3 ev5 loc'" by blast
          have "st_trace s' = st_trace ?s2 @ ((ev2 @ ev3) @ ev5)" using tr4 ev5(1) by simp
          moreover have "accounts ?hp ?loc1 ((ev2 @ ev3) @ ev5) loc'"
            by (rule accounts_trans[OF acc4 ev5(2)])
          ultimately show ?thesis by (rule fin)
        qed
      qed
    qed
  qed
qed

subsection \<open>The calls of the compensation\<close>

lemma cleanup_serve_trace:
  "\<exists>U. st_trace (cleanup_serve rt relay port s) = st_trace s @ U \<and> unbind_attempt relay port U"
  by (cases "rt_get rt (st_trace s) relay")
     (auto simp: cleanup_serve_def containers_get_def exec_run_def Let_def emit_def)

lemma cleanup_disconnect_trace:
  "\<exists>D. st_trace (cleanup_disconnect rt relay n s) = st_trace s @ D \<and> disconnect_attempt relay n D"
  by (cases "rt_get rt (st_trace s) relay")
     (auto simp: cleanup_disconnect_def containers_get_def network_disconnect_def Let_def emit_def)

lemma stop_attempts_cons:
  "stop_attempt c 3 evs \<Longrightarrow> stop_attempts cs rest \<Longrightarrow> stop_attempts (c # cs) (evs @ rest)"
  by (induction c "3::int" evs rule: stop_attempt.induct) auto

lemma cleanup_containers_trace:
  "\<exists>S. st_trace (cleanup_containers rt cs s) = st_trace s @ S \<and> stop_attempts cs S"
proof (induction cs arbitrary: s)
  case Nil
  show ?case by simp
next
  case (Cons c cs)
  let ?s1 = "snd (stop_remove rt c 3 s)"
  obtain evs where evs: "st_trace ?s1 = st_trace s @ evs" "stop_attempt c 3 evs"
    using stop_remove_trace by blast
  obtain rest where rest: "st_trace (cleanup_containers rt cs ?s1) = st_trace ?s1 @ rest" "stop_attempts cs rest"
    using Cons.IH[of ?s1] by blast
  have "st_trace (cleanup_containers rt (c # cs) s) = st_trace s @ (evs @ rest)"
    using evs(1) rest(1) by simp
  with stop_attempts_cons[OF evs(2) rest(2)] show ?case by blast
qed

lemma group_cleanup_trace:
  "\<exists>U D S N. st_trace (group_cleanup rt a loc s) = st_trace s @ U @ D @ S @ N
     \<and> (case ts_serve_port loc of
           None \<Rightarrow> U = []
         | Some port \<Rightarrow> if port \<noteq> 0 then unbind_attempt (cg_tailnet_container a) port U else U = [])
     \<and> (case lc_network loc of
           None \<Rightarrow> D = [] \<and> N = []
         | Some n \<Rightarrow> (if ts_connected loc then disconnect_attempt (cg_tailnet_container a) n D else D = [])
                     \<and> network_removal n N)
     \<and> stop_attempts (created_containers loc) S"
proof -
  define s1 where "s1 = (case ts_serve_port loc of
                  None \<Rightarrow> s
                | Some port \<Rightarrow> if port \<noteq> 0 then cleanup_serve rt (cg_tailnet_container a) port s else s)"
  define s2 where "s2 = (case lc_network loc of
                  None \<Rightarrow> s1
                | Some network \<Rightarrow>
                    if ts_connected loc then cleanup_disconnect rt (cg_tailnet_container a) network s1 else s1)"
  define s3 where "s3 = cleanup_containers rt (created_containers loc) s2"
  define s4 where "s4 = (case lc_network loc of None \<Rightarrow> s3 | Some network \<Rightarrow> snd (network_remove rt network s3))"
  have g: "group_cleanup rt a loc s = s4"
    unfolding group_cleanup_def Let_def s4_def s3_def s2_def s1_def by (rule refl)
  have "\<exists>U. st_trace s1 = st_trace s @ U
          \<and> (case ts_serve_port loc of None \<Rightarrow> U = []
               | Some port \<Rightarrow> if port \<noteq> 0 then unbind_attempt (cg_tailnet_container a) port U else U = [])"
  proof (cases "ts_serve_port loc")
    case None
    then show ?thesis by (simp add: s1_def)
  next
    case (Some port)
    show ?thesis
    proof (cases "port = 0")
      case True
      with Some show ?thesis by (simp add: s1_def)
    next
      case False
      with Some cleanup_serve_trace[of rt "cg_tailnet_container a" port s] show ?thesis
        by (simp add: s1_def)
    qed
  qed
  then obtain U where U: "st_trace s1 = st_trace s @ U"
      "case ts_serve_port loc of None \<Rightarrow> U = []
         | Some port \<Rightarrow> if port \<noteq> 0 then unbind_attempt (cg_tailnet_container a) port U else U = []"
    by blast
  have "\<exists>D. st_trace s2 = st_trace s1 @ D
          \<and> (case lc_network loc of None \<Rightarrow> D = []
               | Some n \<Rightarrow> if ts_connected loc then disconnect_attempt (cg_tailnet_container a) n D else D = [])"
  proof (cases "lc_network loc")
    case None
    then show ?thesis by (simp add: s2_def)
  next
    case (Some n)
    show ?thesis
    proof (cases "ts_connected loc")
      case False
      with Some show ?thesis by (simp add: s2_def)
    next
      case True
      with Some cleanup_disconnect_trace[of rt "cg_tailnet_container a" n s1] show ?thesis
        by (simp add: s2_def)
    qed
  qed
  then obtain D where D: "st_trace s2 = st_trace s1 @ D"
      "case lc_network loc of None \<Rightarrow> D = []
         | Some n \<Rightarrow> if ts_connected loc then disconnect_attempt (cg_tailnet_container a) n D else D = []"
    by blast
  obtain S where S: "st_trace s3 = st_trace s2 @ S" "stop_attempts (created_containers loc) S"
    using cleanup_containers_trace[of rt "created_containers loc" s2] by (auto simp: s3_def)
  have "\<exists>N. st_trace s4 = st_trace s3 @ N
          \<and> (case lc_network loc of None \<Rightarrow> N = [] | Some n \<Rightarrow> network_removal n N)"
    by (cases "lc_network loc") (simp_all add: s4_def network_remove_def Let_def emit_def)
  then obtain N where N: "st_trace s4 = st_trace s3 @ N"
      "case lc_network loc of None \<Rightarrow> N = [] | Some n \<Rightarrow> network_removal n N"
    by blast
  have tr: "st_trace (group_cleanup rt a loc s) = st_trace s @ U @ D @ S @ N"
    using g U(1) D(1) S(1) N(1) by simp
  have dn: "case lc_network loc of
              None \<Rightarrow> D = [] \<and> N = []
            | Some n \<Rightarrow> (if ts_connected loc then disconnect_attempt (cg_tailnet_container a) n D else D = [])
                        \<and> network_removal n N"
    using D(2) N(2) by (cases "lc_network loc") simp_all
  from tr U(2) dn S(2) show ?thesis by blast
qed

lemmas grp_defs = create_container_group_def group_body_def group_cleanup_def attach_relay_def
  create_member_def member_run_args_def member_env_def group_net_args_def cleanup_serve_def
  cleanup_disconnect_def stop_remove_def is_connected_def init_locals_def

lemma group_failure_trace:
  assumes "st_client s" and "rt_ping rt (st_trace s) = None"
      and "create_container_group rt a s = (Inl e, s')"
  shows "\<exists>loc sb body U D S N.
           group_body rt a init_locals (emit (EvPing None) s) = (Inl e, loc, sb)
         \<and> st_trace sb = st_trace s @ [EvPing None] @ body
         \<and> st_trace s' = st_trace s @ [EvPing None] @ body @ U @ D @ S @ N
         \<and> (if bound body \<and> cg_host_port a \<noteq> 0
             then unbind_attempt (cg_tailnet_container a) (cg_host_port a) U else U = [])
         \<and> (if joined body
             then (\<exists>n. created_network body = Some n \<and> disconnect_attempt (cg_tailnet_container a) n D)
             else D = [])
         \<and> stop_attempts (run_oks body) S
         \<and> (case created_network body of None \<Rightarrow> N = [] | Some n \<Rightarrow> network_removal n N)"
proof -
  let ?s1 = "emit (EvPing None) s"
  have c: "is_connected rt s = (True, ?s1)" using assms(1,2) by (rule is_connected_ok)
  obtain r loc sb where gb: "group_body rt a init_locals ?s1 = (r, loc, sb)"
    by (cases "group_body rt a init_locals ?s1") auto
  from assms(3) c gb have r: "r = Inl e"
    by (cases r) (auto simp: create_container_group_def)
  let ?sl = "logger ERROR (''Error creating container group: '' @ error_str e) sb"
  from assms(3) c gb r have s': "s' = group_cleanup rt a loc ?sl"
    by (auto simp: create_container_group_def)
  from group_body_acc[OF gb] obtain body where
    body: "st_trace sb = st_trace ?s1 @ body" "accounts (cg_host_port a) init_locals body loc"
          "joined body \<longrightarrow> created_network body \<noteq> None"
    by blast
  from body(2) have loc:
    "created_containers loc = run_oks body" "lc_network loc = created_network body"
    "ts_connected loc = joined body"
    "ts_serve_port loc = (if bound body then Some (cg_host_port a) else None)"
    by (simp_all add: accounts_def init_locals_def)
  from group_cleanup_trace[of rt a loc ?sl] obtain U D S N where
    cl: "st_trace (group_cleanup rt a loc ?sl) = st_trace ?sl @ U @ D @ S @ N"
        "case ts_serve_port loc of
           None \<Rightarrow> U = []
         | Some port \<Rightarrow> if port \<noteq> 0 then unbind_attempt (cg_tailnet_container a) port U else U = []"
        "case lc_network loc of
           None \<Rightarrow> D = [] \<and> N = []
         | Some n \<Rightarrow> (if ts_connected loc then disconnect_attempt (cg_tailnet_container a) n D else D = [])
                     \<and> network_removal n N"
        "stop_attempts (created_containers loc) S"
    by blast
  have t1: "st_trace sb = st_trace s @ [EvPing None] @ body"
    using body(1) by (simp add: emit_def)
  have t2: "st_trace s' = st_trace s @ [EvPing None] @ body @ U @ D @ S @ N"
    using cl(1) t1 s' by (simp add: logger_def)
  have u: "if bound body \<and> cg_host_port a \<noteq> 0
           then unbind_attempt (cg_tailnet_container a) (cg_host_port a) U else U = []"
    using cl(2) loc(4) by (simp split: if_splits)
  have d: "if joined body
           then (\<exists>n. created_network body = Some n \<and> disconnect_attempt (cg_tailnet_container a) n D)
           else D = []"
    using cl(3) loc(2,3) body(3) by (cases "created_network body") (auto split: if_splits)
  have n: "case created_network body of None \<Rightarrow> N = [] | Some n \<Rightarrow> network_removal n N"
    using cl(3) loc(2) by (cases "created_network body") auto
  have st: "stop_attempts (run_oks body) S" using cl(4) loc(1) by simp
  from gb r t1 t2 u d st n show ?thesis by blast
qed

subsection \<open>The run calls of a group creation\<close>














subsection \<open>The entry lookup\<close>











subsection \<open>Float products\<close>


lemma round53_one: "round53 1 = 1"
  by code_simp





lemma cpu_quota_inexact: "cpu_quota (29 / 100) = 28999"
  by code_simp

subsection \<open>The calls of the stop paths\<close>

lemma answered_append: "answered rt tr (xs @ ys) = (answered rt tr xs \<and> answered rt (tr @ xs) ys)"
  by (induction xs arbitrary: tr) auto

lemma get_stop_remove_trace:
  "\<exists>L. st_trace (snd (get_stop_remove rt i 3 s)) = st_trace s @ L
       \<and> (\<forall>ids L2. id_attempts ids L2 \<longrightarrow> id_attempts (i # ids) (L @ L2))
       \<and> answered rt (st_trace s) L
       \<and> (case fst (get_stop_remove rt i 3 s) of None \<Rightarrow> True | Some e \<Rightarrow> is_NotFound e)
          = (\<not> list_ex stop_failure L)"
proof (cases "rt_get rt (st_trace s) i")
  case (Inl e)
  let ?L = "[EvGet i (Inl e)]"
  have "get_stop_remove rt i 3 s = (Some e, emit (EvGet i (Inl e)) s)"
    using Inl by (simp add: get_stop_remove_def containers_get_def Let_def)
  then have "st_trace (snd (get_stop_remove rt i 3 s)) = st_trace s @ ?L"
     "(case fst (get_stop_remove rt i 3 s) of None \<Rightarrow> True | Some e \<Rightarrow> is_NotFound e)
          = (\<not> list_ex stop_failure ?L)"
    by (simp_all add: emit_def)
  moreover have "\<forall>ids L2. id_attempts ids L2 \<longrightarrow> id_attempts (i # ids) (?L @ L2)" by simp
  moreover have "answered rt (st_trace s) ?L" using Inl by simp
  ultimately show ?thesis by blast
next
  case (Inr c)
  let ?g = "EvGet i (Inr c)"
  have g: "containers_get rt i s = (Inr c, emit ?g s)"
    using Inr by (simp add: containers_get_def Let_def)
  show ?thesis
  proof (cases "rt_stop rt (st_trace s @ [?g]) c 3")
    case (Some e)
    let ?L = "[?g, EvStop c 3 (Some e)]"
    have "get_stop_remove rt i 3 s = (Some e, emit (EvStop c 3 (Some e)) (emit ?g s))"
      using Some by (simp add: get_stop_remove_def g stop_remove_def container_stop_def Let_def emit_def)
    then have "st_trace (snd (get_stop_remove rt i 3 s)) = st_trace s @ ?L"
       "(case fst (get_stop_remove rt i 3 s) of None \<Rightarrow> True | Some e \<Rightarrow> is_NotFound e)
            = (\<not> list_ex stop_failure ?L)"
      by (simp_all add: emit_def)
    moreover have "\<forall>ids L2. id_attempts ids L2 \<longrightarrow> id_attempts (i # ids) (?L @ L2)" by simp
    moreover have "answered rt (st_trace s) ?L" using Inr Some by simp
    ultimately show ?thesis by blast
  next
    case None
    let ?r = "rt_remove rt (st_trace s @ [?g, EvStop c 3 None]) c"
    let ?L = "[?g, EvStop c 3 None, EvRemove c ?r]"
    have "get_stop_remove rt i 3 s = (?r, emit (EvRemove c ?r) (emit (EvStop c 3 None) (emit ?g s)))"
      using None
      by (simp add: get_stop_remove_def g stop_remove_def container_stop_def container_remove_def
                    Let_def emit_def)
    then have "st_trace (snd (get_stop_remove rt i 3 s)) = st_trace s @ ?L"
       "(case fst (get_stop_remove rt i 3 s) of None \<Rightarrow> True | Some e \<Rightarrow> is_NotFound e)
            = (\<not> list_ex stop_failure ?L)"
      by (simp_all add: emit_def split: option.splits)
    moreover have "\<forall>ids L2. id_attempts ids L2 \<longrightarrow> id_attempts (i # ids) (?L @ L2)" by simp
    moreover have "answered rt (st_trace s) ?L" using Inr None by simp
    ultimately show ?thesis by blast
  qed
qed

lemma stop_group_containers_trace:
  "\<exists>L. st_trace (snd (stop_group_containers rt ids b s)) = st_trace s @ L \<and> id_attempts ids L
       \<and> answered rt (st_trace s) L
       \<and> fst (stop_group_containers rt ids b s) = (b \<and> \<not> list_ex stop_failure L)"
proof (induction ids arbitrary: b s)
  case Nil
  show ?case by simp
next
  case (Cons i ids)
  obtain r s1 where g: "get_stop_remove rt i 3 s = (r, s1)" by (cases "get_stop_remove rt i 3 s")
  from get_stop_remove_trace[of rt i s] g obtain L1 where
    L1: "st_trace s1 = st_trace s @ L1"
        "\<forall>ids L2. id_attempts ids L2 \<longrightarrow> id_attempts (i # ids) (L1 @ L2)"
        "answered rt (st_trace s) L1"
        "(case r of None \<Rightarrow> True | Some e \<Rightarrow> is_NotFound e) = (\<not> list_ex stop_failure L1)"
    by auto
  define b1 where "b1 = (b \<and> (case r of None \<Rightarrow> True | Some e \<Rightarrow> is_NotFound e))"
  have "\<exists>s2. stop_group_containers rt (i # ids) b s = stop_group_containers rt ids b1 s2
            \<and> st_trace s2 = st_trace s1"
    using g by (cases r) (auto simp: b1_def logger_def)
  then obtain s2 where s2: "stop_group_containers rt (i # ids) b s = stop_group_containers rt ids b1 s2"
      "st_trace s2 = st_trace s1"
    by blast
  from Cons.IH[of b1 s2] obtain L2 where
    L2: "st_trace (snd (stop_group_containers rt ids b1 s2)) = st_trace s2 @ L2" "id_attempts ids L2"
        "answered rt (st_trace s2) L2"
        "fst (stop_group_containers rt ids b1 s2) = (b1 \<and> \<not> list_ex stop_failure L2)"
    by blast
  have "st_trace (snd (stop_group_containers rt (i # ids) b s)) = st_trace s @ (L1 @ L2)"
    using s2 L1(1) L2(1) by simp
  moreover have "id_attempts (i # ids) (L1 @ L2)" using L1(2) L2(2) by blast
  moreover have "answered rt (st_trace s) (L1 @ L2)"
    using L1(1,3) L2(3) s2(2) by (simp add: answered_append)
  moreover have "fst (stop_group_containers rt (i # ids) b s) = (b \<and> \<not> list_ex stop_failure (L1 @ L2))"
    using s2(1) L2(4) L1(4) by (auto simp: b1_def)
  ultimately show ?case by blast
qed

lemma stop_serve_trace:
  "\<exists>R. st_trace (stop_serve rt relay p s) = st_trace s @ R \<and> unbind_attempt relay p R
       \<and> answered rt (st_trace s) R"
proof (cases "rt_get rt (st_trace s) relay")
  case (Inl e)
  let ?R = "[EvGet relay (Inl e)]"
  have "st_trace (stop_serve rt relay p s) = st_trace s @ ?R"
    using Inl by (simp add: stop_serve_def containers_get_def Let_def emit_def logger_def)
  moreover have "unbind_attempt relay p ?R" "answered rt (st_trace s) ?R" using Inl by simp_all
  ultimately show ?thesis by blast
next
  case (Inr c)
  let ?x = "rt_exec rt (st_trace s @ [EvGet relay (Inr c)]) c (serve_off_cmd p)"
  let ?R = "[EvGet relay (Inr c), EvExec c (serve_off_cmd p) ?x]"
  have "st_trace (stop_serve rt relay p s) = st_trace s @ ?R"
    using Inr
    by (cases ?x) (simp_all add: stop_serve_def containers_get_def exec_run_def Let_def emit_def logger_def)
  moreover have "unbind_attempt relay p ?R" "answered rt (st_trace s) ?R" using Inr by simp_all
  ultimately show ?thesis by blast
qed

lemma stop_group_network_trace:
  "\<exists>N. st_trace (snd (stop_group_network rt relay nid b s)) = st_trace s @ N
       \<and> network_teardown relay nid N \<and> answered rt (st_trace s) N
       \<and> fst (stop_group_network rt relay nid b s) = (b \<and> \<not> list_ex net_failure N)"
proof (cases "rt_net_get rt (st_trace s) nid")
  case (Inl e)
  let ?N = "[EvNetGet nid (Inl e)]"
  have "st_trace (snd (stop_group_network rt relay nid b s)) = st_trace s @ ?N"
       "fst (stop_group_network rt relay nid b s) = (b \<and> \<not> list_ex net_failure ?N)"
    using Inl by (simp_all add: stop_group_network_def networks_get_def Let_def emit_def logger_def)
  moreover have "network_teardown relay nid ?N" "answered rt (st_trace s) ?N"
    using Inl by (simp_all add: network_teardown_def)
  ultimately show ?thesis by blast
next
  case (Inr n)
  let ?a = "EvNetGet nid (Inr n)"
  let ?t1 = "st_trace s @ [?a]"
  have ng: "networks_get rt nid s = (Inr n, emit ?a s)"
    using Inr by (simp add: networks_get_def Let_def)
  show ?thesis
  proof (cases "rt_get rt ?t1 relay")
    case (Inl e)
    let ?b = "EvGet relay (Inl e)"
    let ?r = "rt_net_remove rt (?t1 @ [?b]) n"
    let ?N = "[?a, ?b, EvNetRemove n ?r]"
    have "st_trace (snd (stop_group_network rt relay nid b s)) = st_trace s @ ?N"
         "fst (stop_group_network rt relay nid b s) = (b \<and> \<not> list_ex net_failure ?N)"
      using Inl
      by (cases ?r; simp add: stop_group_network_def ng containers_get_def network_remove_def
                             Let_def emit_def logger_def)+
    moreover have "network_teardown relay nid ?N" "answered rt (st_trace s) ?N"
      using Inr Inl by (simp_all add: network_teardown_def)
    ultimately show ?thesis by blast
  next
    case (Inr c)
    let ?b = "EvGet relay (Inr c)"
    let ?d = "rt_net_disconnect rt (?t1 @ [?b]) n c"
    let ?c = "EvNetDisconnect n c ?d"
    let ?r = "rt_net_remove rt (?t1 @ [?b, ?c]) n"
    let ?N = "[?a, ?b, ?c, EvNetRemove n ?r]"
    have "st_trace (snd (stop_group_network rt relay nid b s)) = st_trace s @ ?N"
         "fst (stop_group_network rt relay nid b s) = (b \<and> \<not> list_ex net_failure ?N)"
      using Inr
      by (cases ?d; cases ?r;
          simp add: stop_group_network_def ng containers_get_def network_remove_def
                    network_disconnect_def Let_def emit_def logger_def)+
    moreover have "network_teardown relay nid ?N" "answered rt (st_trace s) ?N"
      using \<open>rt_net_get rt (st_trace s) nid = Inr n\<close> Inr by (simp_all add: network_teardown_def)
    ultimately show ?thesis by blast
  qed
qed

subsection \<open>The order of the run calls of a group\<close>







subsection \<open>The traces of whole calls\<close>

lemma stop_container_trace:
  assumes "st_client s" and "rt_ping rt (st_trace s) = None"
  shows "\<exists>L. new_events s (snd (stop_container rt cid s)) = [EvPing None] @ L
           \<and> id_attempts [cid] L
           \<and> answered rt (st_trace s) ([EvPing None] @ L)
           \<and> fst (stop_container rt cid s) = Inr (\<not> list_ex stop_failure L)
           \<and> map fst (st_log (snd (stop_container rt cid s)))
               = map fst (st_log s) @ [if list_ex stop_failure L then ERROR else INFO]"
proof -
  let ?s1 = "emit (EvPing None) s"
  have c: "is_connected rt s = (True, ?s1)" using assms by (rule is_connected_ok)
  obtain r s2 where g: "get_stop_remove rt cid 3 ?s1 = (r, s2)" by (cases "get_stop_remove rt cid 3 ?s1")
  from get_stop_remove_trace[of rt cid ?s1] g obtain L where
    L: "st_trace s2 = st_trace ?s1 @ L"
       "\<forall>ids L2. id_attempts ids L2 \<longrightarrow> id_attempts (cid # ids) (L @ L2)"
       "answered rt (st_trace ?s1) L"
       "(case r of None \<Rightarrow> True | Some e \<Rightarrow> is_NotFound e) = (\<not> list_ex stop_failure L)"
    by auto
  have lg: "st_log s2 = st_log s" using get_stop_remove_log[OF g] by (simp add: emit_def)
  have "id_attempts [] []" by simp
  with L(2) have ia: "id_attempts [cid] (L @ [])" by blast
  have tr: "st_trace (snd (stop_container rt cid s)) = st_trace s @ ([EvPing None] @ L)"
    using g L(1) by (cases r) (auto simp: stop_container_def c logger_def emit_def)
  have res: "fst (stop_container rt cid s) = Inr (\<not> list_ex stop_failure L)"
    using g L(4) by (cases r) (auto simp: stop_container_def c)
  have log: "map fst (st_log (snd (stop_container rt cid s)))
               = map fst (st_log s) @ [if list_ex stop_failure L then ERROR else INFO]"
    using g L(4) lg by (cases r) (auto simp: stop_container_def c logger_def)
  have an: "answered rt (st_trace s) ([EvPing None] @ L)"
    using L(3) assms(2) by (simp add: emit_def)
  from new_events_append[OF tr] ia an res log show ?thesis by auto
qed

lemma stop_container_stop_fails:
  assumes "st_client s" and "rt_ping rt (st_trace s) = None"
      and "rt_get rt (st_trace s @ [EvPing None]) cid = Inr c"
      and "rt_stop rt (st_trace s @ [EvPing None, EvGet cid (Inr c)]) c 3 = Some e"
      and "\<not> is_NotFound e"
  shows "fst (stop_container rt cid s) = Inr False
       \<and> last (st_log (snd (stop_container rt cid s)))
           = (ERROR, ''Error stopping container '' @ take 12 cid @ '': '' @ docker_str e)"
  using assms
  by (simp add: stop_container_def is_connected_ok get_stop_remove_def stop_remove_def
                containers_get_def container_stop_def Let_def emit_def logger_def)

lemma stop_container_group_trace:
  assumes "st_client s" and "rt_ping rt (st_trace s) = None"
  shows "\<exists>R L N. new_events s (snd (stop_container_group rt a s)) = [EvPing None] @ R @ L @ N
           \<and> (case sg_host_port a of
                 None \<Rightarrow> R = []
               | Some p \<Rightarrow> if p \<noteq> 0 then unbind_attempt (sg_tailnet_container a) p R else R = [])
           \<and> id_attempts (case sg_container_ids a of None \<Rightarrow> [] | Some ids \<Rightarrow> ids) L
           \<and> (case sg_network_id a of
                 None \<Rightarrow> N = []
               | Some nid \<Rightarrow> if nid \<noteq> [] then network_teardown (sg_tailnet_container a) nid N else N = [])
           \<and> answered rt (st_trace s) ([EvPing None] @ R @ L @ N)
           \<and> fst (stop_container_group rt a s) = Inr (\<not> list_ex stop_failure L \<and> \<not> list_ex net_failure N)"
proof -
  let ?s1 = "emit (EvPing None) s"
  let ?ids = "case sg_container_ids a of None \<Rightarrow> [] | Some ids \<Rightarrow> ids"
  let ?tn = "sg_tailnet_container a"
  have c: "is_connected rt s = (True, ?s1)" using assms by (rule is_connected_ok)
  define s2 where "s2 = (case sg_host_port a of None \<Rightarrow> ?s1
        | Some host_port \<Rightarrow> if host_port \<noteq> 0 then stop_serve rt ?tn host_port ?s1 else ?s1)"
  have "\<exists>R. st_trace s2 = st_trace ?s1 @ R \<and> answered rt (st_trace ?s1) R
          \<and> (case sg_host_port a of
                 None \<Rightarrow> R = []
               | Some p \<Rightarrow> if p \<noteq> 0 then unbind_attempt ?tn p R else R = [])"
  proof (cases "sg_host_port a")
    case None
    then show ?thesis by (simp add: s2_def)
  next
    case (Some p)
    show ?thesis
    proof (cases "p = 0")
      case True
      with Some show ?thesis by (simp add: s2_def)
    next
      case False
      with Some stop_serve_trace[of rt ?tn p ?s1] show ?thesis by (auto simp: s2_def)
    qed
  qed
  then obtain R where R: "st_trace s2 = st_trace ?s1 @ R" "answered rt (st_trace ?s1) R"
      "case sg_host_port a of
         None \<Rightarrow> R = []
       | Some p \<Rightarrow> if p \<noteq> 0 then unbind_attempt ?tn p R else R = []"
    by blast
  obtain b s3 where l: "stop_group_containers rt ?ids True s2 = (b, s3)"
    by (cases "stop_group_containers rt ?ids True s2")
  from stop_group_containers_trace[of rt ?ids True s2] l obtain L where
    L: "st_trace s3 = st_trace s2 @ L" "id_attempts ?ids L" "answered rt (st_trace s2) L"
       "b = (\<not> list_ex stop_failure L)"
    by auto
  define res where "res = (case sg_network_id a of
                     None \<Rightarrow> (b, s3)
                   | Some network_id \<Rightarrow>
                       if network_id \<noteq> [] then stop_group_network rt ?tn network_id b s3 else (b, s3))"
  have scg: "stop_container_group rt a s = (Inr (fst res), snd res)"
    using l[unfolded s2_def]
    by (auto simp: stop_container_group_def c Let_def res_def split: option.splits prod.splits)
  have "\<exists>N. st_trace (snd res) = st_trace s3 @ N \<and> answered rt (st_trace s3) N
          \<and> fst res = (b \<and> \<not> list_ex net_failure N)
          \<and> (case sg_network_id a of
                 None \<Rightarrow> N = []
               | Some nid \<Rightarrow> if nid \<noteq> [] then network_teardown ?tn nid N else N = [])"
  proof (cases "sg_network_id a")
    case None
    then show ?thesis by (simp add: res_def)
  next
    case (Some nid)
    show ?thesis
    proof (cases "nid = []")
      case True
      with Some show ?thesis by (simp add: res_def)
    next
      case False
      with Some stop_group_network_trace[of rt ?tn nid b s3] show ?thesis by (auto simp: res_def)
    qed
  qed
  then obtain N where N: "st_trace (snd res) = st_trace s3 @ N" "answered rt (st_trace s3) N"
      "fst res = (b \<and> \<not> list_ex net_failure N)"
      "case sg_network_id a of
         None \<Rightarrow> N = []
       | Some nid \<Rightarrow> if nid \<noteq> [] then network_teardown ?tn nid N else N = []"
    by blast
  have tr: "st_trace (snd (stop_container_group rt a s)) = st_trace s @ ([EvPing None] @ R @ L @ N)"
    using scg N(1) L(1) R(1) by (simp add: emit_def)
  have an: "answered rt (st_trace s) ([EvPing None] @ R @ L @ N)"
    using assms(2) R(1,2) L(1,3) N(2) by (simp add: answered_append emit_def)
  have rs: "fst (stop_container_group rt a s) = Inr (\<not> list_ex stop_failure L \<and> \<not> list_ex net_failure N)"
    using scg N(3) L(4) by simp
  from new_events_append[OF tr] R(3) L(2) N(4) an rs show ?thesis by blast
qed


section \<open>The claims\<close>

subsection \<open>The port field of create_container\<close>

text \<open>
  C10.  Whenever \<open>create_container\<close> succeeds, the \<open>port\<close> field of the returned record is
  the \<open>host_port\<close> argument as it was passed: in multi-port mode it is not taken from the
  bound external ports, and it is \<open>None\<close> when no \<open>host_port\<close> was given.
\<close>

theorem create_container_port:
  "create_container rt a s = (Inr r, s') \<Longrightarrow> cr_port r = cc_host_port a"
  by (auto simp: create_container_def split: prod.splits bool.splits sum.splits if_splits)

theorem create_container_port_witness:
  "fst (create_container rt_ok cc_multi s0)
     = Inr \<lparr>cr_container_id = ''id-None'', cr_status = ''created'', cr_port = None\<rparr>
   \<and> ra_ports (create_run_args cc_multi) = Some [(''80/tcp'', Some 30001), (''22/tcp'', Some 30002)]
   \<and> cc_host_port cc_multi = None"
proof -
  let ?r = "\<lparr>cr_container_id = ''id-None'', cr_status = ''created'', cr_port = None\<rparr>"
  have e: "create_container rt_ok cc_multi s0 = (Inr ?r, snd (create_container rt_ok cc_multi s0))"
    by (simp add: create_container_def is_connected_def rt_ok_def s0_def cc_multi_def cc_default_def
                  op_defs create_run_args_def)
  have p: "ra_ports (create_run_args cc_multi) = Some [(''80/tcp'', Some 30001), (''22/tcp'', Some 30002)]"
    by (simp add: create_run_args_def ports_config_def cc_multi_def cc_default_def)
  have f: "fst (create_container rt_ok cc_multi s0) = Inr ?r"
    by (subst e) simp
  have h: "cr_port ?r = cc_host_port cc_multi"
    by (rule create_container_port[OF e])
  from f p h show ?thesis by simp
qed

subsection \<open>Shared-namespace mode\<close>




subsection \<open>Stopping what does not exist\<close>

text \<open>
  C5.  \<open>stop_container\<close> never raises.  With the runtime connected it looks the container
  up, stops it with timeout 3 and removes it, up to the first exception; every call
  carries the runtime's own answer; the result is \<open>True\<close> exactly when no call answered with
  an exception other than not-found, and the log gets one entry, at level ERROR when the
  result is \<open>False\<close>.  In particular an id that the runtime does not find gives \<open>True\<close>, and a
  \<open>stop\<close> that fails with another error gives \<open>False\<close> and the ERROR line.
  \<open>stop_container_group\<close> makes the same attempt for every id in order, whatever the
  earlier ones answered, between the attempt to unbind the route and the teardown of the
  network; its result is \<open>True\<close> exactly when no attempt on a container, and neither the
  lookup nor the removal of the network, answered with an exception other than not-found.
  So an id that is not found counts as a success for that id.
\<close>

theorem stop_idempotent:
  "(\<exists>b. fst (stop_container rt cid s) = Inr b)
   \<and> (st_client s \<and> rt_ping rt (st_trace s) = None \<longrightarrow>
        (\<exists>L. new_events s (snd (stop_container rt cid s)) = [EvPing None] @ L
            \<and> id_attempts [cid] L
            \<and> answered rt (st_trace s) ([EvPing None] @ L)
            \<and> fst (stop_container rt cid s) = Inr (\<not> list_ex stop_failure L)
            \<and> map fst (st_log (snd (stop_container rt cid s)))
                = map fst (st_log s) @ [if list_ex stop_failure L then ERROR else INFO])
      \<and> ((\<exists>e. rt_get rt (st_trace s @ [EvPing None]) cid = Inl e \<and> is_NotFound e)
            \<longrightarrow> fst (stop_container rt cid s) = Inr True)
      \<and> (\<forall>c e. rt_get rt (st_trace s @ [EvPing None]) cid = Inr c
                 \<and> rt_stop rt (st_trace s @ [EvPing None, EvGet cid (Inr c)]) c 3 = Some e
                 \<and> \<not> is_NotFound e
            \<longrightarrow> fst (stop_container rt cid s) = Inr False
              \<and> last (st_log (snd (stop_container rt cid s)))
                  = (ERROR, ''Error stopping container '' @ take 12 cid @ '': '' @ docker_str e))
      \<and> (\<exists>R L N. new_events s (snd (stop_container_group rt a s)) = [EvPing None] @ R @ L @ N
            \<and> (case sg_host_port a of
                  None \<Rightarrow> R = []
                | Some p \<Rightarrow> if p \<noteq> 0 then unbind_attempt (sg_tailnet_container a) p R else R = [])
            \<and> id_attempts (case sg_container_ids a of None \<Rightarrow> [] | Some ids \<Rightarrow> ids) L
            \<and> (case sg_network_id a of
                  None \<Rightarrow> N = []
                | Some nid \<Rightarrow> if nid \<noteq> [] then network_teardown (sg_tailnet_container a) nid N else N = [])
            \<and> answered rt (st_trace s) ([EvPing None] @ R @ L @ N)
            \<and> fst (stop_container_group rt a s)
                = Inr (\<not> list_ex stop_failure L \<and> \<not> list_ex net_failure N))
      \<and> ((\<forall>tr. \<forall>c \<in> set (case sg_container_ids a of None \<Rightarrow> [] | Some ids \<Rightarrow> ids).
                \<exists>e. rt_get rt tr c = Inl e \<and> is_NotFound e)
           \<and> (\<forall>tr nid. sg_network_id a = Some nid \<longrightarrow> (\<exists>e. rt_net_get rt tr nid = Inl e \<and> is_NotFound e))
            \<longrightarrow> fst (stop_container_group rt a s) = Inr True))"
proof (intro conjI impI allI)
  show "\<exists>b. fst (stop_container rt cid s) = Inr b" by (rule stop_container_total)
next
  assume c: "st_client s \<and> rt_ping rt (st_trace s) = None"
  then show "\<exists>L. new_events s (snd (stop_container rt cid s)) = [EvPing None] @ L
            \<and> id_attempts [cid] L
            \<and> answered rt (st_trace s) ([EvPing None] @ L)
            \<and> fst (stop_container rt cid s) = Inr (\<not> list_ex stop_failure L)
            \<and> map fst (st_log (snd (stop_container rt cid s)))
                = map fst (st_log s) @ [if list_ex stop_failure L then ERROR else INFO]"
    using stop_container_trace[of s rt cid] by simp
next
  assume c: "st_client s \<and> rt_ping rt (st_trace s) = None"
     and nf: "\<exists>e. rt_get rt (st_trace s @ [EvPing None]) cid = Inl e \<and> is_NotFound e"
  from nf obtain e where e: "rt_get rt (st_trace (emit (EvPing None) s)) cid = Inl e" "is_NotFound e"
    by (auto simp: emit_def)
  show "fst (stop_container rt cid s) = Inr True"
    using c e(2) by (simp add: stop_container_result get_stop_remove_not_found[OF e(1)])
next
  fix c e
  assume "st_client s \<and> rt_ping rt (st_trace s) = None"
     and "rt_get rt (st_trace s @ [EvPing None]) cid = Inr c
          \<and> rt_stop rt (st_trace s @ [EvPing None, EvGet cid (Inr c)]) c 3 = Some e
          \<and> \<not> is_NotFound e"
  then have r: "fst (stop_container rt cid s) = Inr False
       \<and> last (st_log (snd (stop_container rt cid s)))
           = (ERROR, ''Error stopping container '' @ take 12 cid @ '': '' @ docker_str e)"
    using stop_container_stop_fails[of s rt cid c e] by simp
  from r show "fst (stop_container rt cid s) = Inr False" by simp
  from r show "last (st_log (snd (stop_container rt cid s)))
           = (ERROR, ''Error stopping container '' @ take 12 cid @ '': '' @ docker_str e)" by simp
next
  assume c: "st_client s \<and> rt_ping rt (st_trace s) = None"
  then show "\<exists>R L N. new_events s (snd (stop_container_group rt a s)) = [EvPing None] @ R @ L @ N
            \<and> (case sg_host_port a of
                  None \<Rightarrow> R = []
                | Some p \<Rightarrow> if p \<noteq> 0 then unbind_attempt (sg_tailnet_container a) p R else R = [])
            \<and> id_attempts (case sg_container_ids a of None \<Rightarrow> [] | Some ids \<Rightarrow> ids) L
            \<and> (case sg_network_id a of
                  None \<Rightarrow> N = []
                | Some nid \<Rightarrow> if nid \<noteq> [] then network_teardown (sg_tailnet_container a) nid N else N = [])
            \<and> answered rt (st_trace s) ([EvPing None] @ R @ L @ N)
            \<and> fst (stop_container_group rt a s)
                = Inr (\<not> list_ex stop_failure L \<and> \<not> list_ex net_failure N)"
    using stop_container_group_trace[of s rt a] by simp
next
  assume c: "st_client s \<and> rt_ping rt (st_trace s) = None"
     and nf: "(\<forall>tr. \<forall>c \<in> set (case sg_container_ids a of None \<Rightarrow> [] | Some ids \<Rightarrow> ids).
                \<exists>e. rt_get rt tr c = Inl e \<and> is_NotFound e)
           \<and> (\<forall>tr nid. sg_network_id a = Some nid \<longrightarrow> (\<exists>e. rt_net_get rt tr nid = Inl e \<and> is_NotFound e))"
  show "fst (stop_container_group rt a s) = Inr True"
    using c nf by (rule stop_container_group_not_found)
qed

theorem stop_idempotent_witness:
  "st_client s0 \<and> rt_ping rt_gone (st_trace s0) = None
   \<and> rt_get rt_gone (st_trace s0 @ [EvPing None]) ''c1'' = Inl (NotFound ''No such container'')
   \<and> fst (stop_container rt_gone ''c1'' s0) = Inr True
   \<and> fst (stop_container_group rt_gone sg_example s0) = Inr True
   \<and> rt_ping rt_stuck (st_trace s0) = None
   \<and> rt_stop rt_stuck [EvPing None, EvGet ''c1'' (Inr \<lparr>c_id = ''c1'', c_status = ''running'', c_labels = []\<rparr>)]
        \<lparr>c_id = ''c1'', c_status = ''running'', c_labels = []\<rparr> 3
      = Some (APIError ''cannot stop container'')
   \<and> fst (stop_container rt_stuck ''c1'' s0) = Inr False
   \<and> fst (last (st_log (snd (stop_container rt_stuck ''c1'' s0)))) = ERROR
   \<and> fst (stop_container_group rt_stuck sg_example s0) = Inr False"
proof -
  let ?c = "\<lparr>c_id = ''c1'', c_status = ''running'', c_labels = []\<rparr>"
  let ?e = "APIError ''cannot stop container''"
  have c: "st_client s0 \<and> rt_ping rt_gone (st_trace s0) = None"
    by (simp add: rt_gone_def rt_ok_def s0_def)
  have g: "rt_get rt_gone (st_trace s0 @ [EvPing None]) ''c1'' = Inl (NotFound ''No such container'')"
    by (simp add: rt_gone_def)
  have nf: "is_NotFound (NotFound ''No such container'')" by simp
  have ids: "(\<forall>tr. \<forall>c \<in> set (case sg_container_ids sg_example of None \<Rightarrow> [] | Some ids \<Rightarrow> ids).
                \<exists>e. rt_get rt_gone tr c = Inl e \<and> is_NotFound e)
           \<and> (\<forall>tr nid. sg_network_id sg_example = Some nid
                  \<longrightarrow> (\<exists>e. rt_net_get rt_gone tr nid = Inl e \<and> is_NotFound e))"
    by (simp add: rt_gone_def)
  note t = stop_idempotent[of rt_gone "''c1''" s0 sg_example]
  from t c g nf have one: "fst (stop_container rt_gone ''c1'' s0) = Inr True" by blast
  from t c ids have grp: "fst (stop_container_group rt_gone sg_example s0) = Inr True" by blast
  have c': "st_client s0 \<and> rt_ping rt_stuck (st_trace s0) = None"
    by (simp add: rt_stuck_def rt_ok_def s0_def)
  have g': "rt_get rt_stuck (st_trace s0 @ [EvPing None]) ''c1'' = Inr ?c
          \<and> rt_stop rt_stuck (st_trace s0 @ [EvPing None, EvGet ''c1'' (Inr ?c)]) ?c 3 = Some ?e
          \<and> \<not> is_NotFound ?e"
    by (simp add: rt_stuck_def rt_ok_def)
  note t' = stop_idempotent[of rt_stuck "''c1''" s0 sg_example]
  from t' c' g' have two: "fst (stop_container rt_stuck ''c1'' s0) = Inr False"
    "last (st_log (snd (stop_container rt_stuck ''c1'' s0)))
       = (ERROR, ''Error stopping container '' @ take 12 ''c1'' @ '': '' @ docker_str ?e)"
    by blast+
  have grp': "fst (stop_container_group rt_stuck sg_example s0) = Inr False"
    by (simp add: stop_container_group_def stop_group_network_def stop_serve_def get_stop_remove_def
                  stop_remove_def is_connected_def rt_stuck_def rt_ok_def s0_def sg_example_def op_defs)
  have s: "rt_stop rt_stuck [EvPing None, EvGet ''c1'' (Inr ?c)] ?c 3 = Some ?e"
    by (simp add: rt_stuck_def)
  from c g one grp c' s two grp' show ?thesis by simp
qed

subsection \<open>Group teardown\<close>

text \<open>
  C6, as the spec states it: a network that is still in use when the group's network is
  removed is only a warning and does not make the aggregate result false.  In the code the
  handler of the network step logs the warning and then sets \<open>success = False\<close>: with every
  container stopped and only the removal of the network refused, the result is \<open>False\<close>;
  with the same arguments and a runtime that removes the network it is \<open>True\<close>.
\<close>

theorem group_teardown_in_use_counterexample:
  "fst (stop_container_group rt_in_use sg_example s0) = Inr False
   \<and> fst (stop_container_group rt_ok sg_example s0) = Inr True
   \<and> rt_net_remove rt_in_use [] \<lparr>n_id = ''net1'', n_name = ''net1''\<rparr>
       = Some (APIError ''network has active endpoints'')"
  by (simp add: stop_container_group_def stop_group_network_def stop_serve_def get_stop_remove_def
                stop_remove_def is_connected_def rt_in_use_def rt_ok_def s0_def sg_example_def op_defs)

text \<open>
  C6, amended: \<open>stop_container_group\<close> never raises and returns an aggregate boolean; a
  failure to remove the group's network other than not-found (a network still in use) is
  logged at level WARNING and makes the aggregate result \<open>False\<close>.
\<close>

theorem group_teardown_total:
  "(\<exists>b. fst (stop_container_group rt a s) = Inr b)
   \<and> (st_client s \<and> rt_ping rt (st_trace s) = None \<and> sg_network_id a = Some nid \<and> nid \<noteq> []
        \<and> (\<forall>tr. rt_net_get rt tr nid = Inr n) \<and> (\<forall>tr. rt_net_remove rt tr n = Some e)
        \<and> \<not> is_NotFound e
      \<longrightarrow> fst (stop_container_group rt a s) = Inr False
        \<and> last (st_log (snd (stop_container_group rt a s)))
            = (WARNING, ''Failed to remove network '' @ take 12 nid @ '': '' @ docker_str e))"
proof (intro conjI impI)
  show "\<exists>b. fst (stop_container_group rt a s) = Inr b" by (rule stop_container_group_total)
next
  assume h: "st_client s \<and> rt_ping rt (st_trace s) = None \<and> sg_network_id a = Some nid \<and> nid \<noteq> []
        \<and> (\<forall>tr. rt_net_get rt tr nid = Inr n) \<and> (\<forall>tr. rt_net_remove rt tr n = Some e)
        \<and> \<not> is_NotFound e"
  then show "fst (stop_container_group rt a s) = Inr False"
    using stop_container_group_in_use[of s rt a nid n e] by simp
  from h show "last (st_log (snd (stop_container_group rt a s)))
            = (WARNING, ''Failed to remove network '' @ take 12 nid @ '': '' @ docker_str e)"
    using stop_container_group_in_use[of s rt a nid n e] by simp
qed

theorem group_teardown_total_witness:
  "st_client s0 \<and> rt_ping rt_in_use (st_trace s0) = None \<and> sg_network_id sg_example = Some ''net1''
   \<and> fst (stop_container_group rt_in_use sg_example s0) = Inr False
   \<and> fst (last (st_log (snd (stop_container_group rt_in_use sg_example s0)))) = WARNING"
proof -
  let ?n = "\<lparr>n_id = ''net1'', n_name = ''net1''\<rparr>"
  let ?e = "APIError ''network has active endpoints''"
  have h: "st_client s0 \<and> rt_ping rt_in_use (st_trace s0) = None \<and> sg_network_id sg_example = Some ''net1''
        \<and> ''net1'' \<noteq> []
        \<and> (\<forall>tr. rt_net_get rt_in_use tr ''net1'' = Inr ?n) \<and> (\<forall>tr. rt_net_remove rt_in_use tr ?n = Some ?e)
        \<and> \<not> is_NotFound ?e"
    by (simp add: rt_in_use_def rt_ok_def s0_def sg_example_def)
  note t = group_teardown_total[of rt_in_use sg_example s0 "''net1''" ?n ?e]
  from t h have r: "fst (stop_container_group rt_in_use sg_example s0) = Inr False"
     "last (st_log (snd (stop_container_group rt_in_use sg_example s0)))
            = (WARNING, ''Failed to remove network '' @ take 12 ''net1'' @ '': '' @ docker_str ?e)"
    by blast+
  from h r show ?thesis by simp
qed

subsection \<open>Networks\<close>

text \<open>
  C7.  \<open>create_network\<close> on a name that the runtime already knows returns \<open>True\<close> after the
  probe and the lookup, with no creation call and nothing logged.  \<open>remove_network\<close>
  returns \<open>True\<close> when the network is not found; it never raises, so a refused removal
  cannot abort the caller: a network in use gives \<open>False\<close> and one entry at level WARNING.
\<close>

theorem network_idempotent:
  "(st_client s \<and> rt_ping rt (st_trace s) = None
      \<and> rt_net_get rt (st_trace s @ [EvPing None]) name = Inr n
     \<longrightarrow> create_network rt name internal driver options s
          = (Inr True, s\<lparr>st_trace := st_trace s @ [EvPing None, EvNetGet name (Inr n)]\<rparr>))
   \<and> (st_client s \<and> rt_ping rt (st_trace s) = None
      \<and> rt_net_get rt (st_trace s @ [EvPing None]) name = Inl e \<and> is_NotFound e
     \<longrightarrow> fst (remove_network rt name s) = Inr True)
   \<and> (\<exists>b. fst (remove_network rt name s) = Inr b)
   \<and> (st_client s \<and> rt_ping rt (st_trace s) = None
      \<and> rt_net_get rt (st_trace s @ [EvPing None]) name = Inr n
      \<and> rt_net_remove rt (st_trace s @ [EvPing None, EvNetGet name (Inr n)]) n = Some e'
      \<and> \<not> is_NotFound e'
     \<longrightarrow> remove_network rt name s
         = (Inr False,
            \<lparr>st_client = st_client s,
             st_trace = st_trace s @ [EvPing None, EvNetGet name (Inr n), EvNetRemove n (Some e')],
             st_log = st_log s @ [(WARNING, ''Failed to remove network '' @ name
                                            @ '' (might be in use): '' @ docker_str e')]\<rparr>))"
  by (intro conjI impI)
     (simp_all add: create_network_existing remove_network_not_found remove_network_total
                    remove_network_in_use)

theorem network_idempotent_witness:
  "st_client s0 \<and> rt_ping rt_in_use (st_trace s0) = None
   \<and> create_network rt_in_use ''net1'' False ''bridge'' None s0
      = (Inr True, s0\<lparr>st_trace := [EvPing None, EvNetGet ''net1'' (Inr \<lparr>n_id = ''net1'', n_name = ''net1''\<rparr>)]\<rparr>)
   \<and> fst (remove_network rt_in_use ''net1'' s0) = Inr False"
proof -
  let ?n = "\<lparr>n_id = ''net1'', n_name = ''net1''\<rparr>"
  let ?e = "APIError ''network has active endpoints''"
  have c: "st_client s0 \<and> rt_ping rt_in_use (st_trace s0) = None"
    by (simp add: rt_in_use_def rt_ok_def s0_def)
  have g: "rt_net_get rt_in_use (st_trace s0 @ [EvPing None]) ''net1'' = Inr ?n"
    by (simp add: rt_in_use_def rt_ok_def)
  have r: "rt_net_remove rt_in_use (st_trace s0 @ [EvPing None, EvNetGet ''net1'' (Inr ?n)]) ?n = Some ?e"
          "\<not> is_NotFound ?e"
    by (simp_all add: rt_in_use_def)
  note t = network_idempotent[of s0 rt_in_use "''net1''" ?n False "''bridge''" None "NotFound []" ?e]
  from t c g have cr: "create_network rt_in_use ''net1'' False ''bridge'' None s0
          = (Inr True, s0\<lparr>st_trace := st_trace s0 @ [EvPing None, EvNetGet ''net1'' (Inr ?n)]\<rparr>)"
    by blast
  from t c g r have "remove_network rt_in_use ''net1'' s0
         = (Inr False,
            \<lparr>st_client = st_client s0,
             st_trace = st_trace s0 @ [EvPing None, EvNetGet ''net1'' (Inr ?n), EvNetRemove ?n (Some ?e)],
             st_log = st_log s0 @ [(WARNING, ''Failed to remove network '' @ ''net1''
                                            @ '' (might be in use): '' @ docker_str ?e)]\<rparr>)"
    by blast
  then have rm: "fst (remove_network rt_in_use ''net1'' s0) = Inr False" by simp
  from c cr rm show ?thesis by (simp add: s0_def)
qed

subsection \<open>The sweep\<close>

text \<open>
  C8, as the spec states it: the sweep stops and removes exactly the managed containers
  whose correlation id is absent from the valid ids, and leaves every other container
  (unmanaged, or managed with a valid correlation id) untouched.  The code guards the
  removal with \<open>instance_uuid and ...\<close>: a managed container without the correlation-id
  label, or with an empty one, is never stopped although its id is not among the valid
  ones.
\<close>

theorem sweep_counterexample:
  "stopped (st_trace (snd (cleanup_expired_containers rt_sweep [''u1''] s0))) = [c_orphan]
   \<and> rt_containers rt_sweep [] = [c_orphan, c_live, c_foreign, c_no_uuid, c_empty_uuid]
   \<and> managed c_no_uuid \<and> dict_get (c_labels c_no_uuid) ''ctfd.instance_uuid'' = None
   \<and> managed c_empty_uuid \<and> dict_get (c_labels c_empty_uuid) ''ctfd.instance_uuid'' = Some ''''"
  by (simp add: cleanup_expired_containers_def list_managed_containers_def stop_remove_def
                is_connected_def rt_sweep_def rt_ok_def s0_def op_defs label_filter_def dict_get_def
                orphaned_def stopped_def managed_def
                c_orphan_def c_live_def c_foreign_def c_no_uuid_def c_empty_uuid_def)

text \<open>
  C8, amended: with the runtime connected and the listing successful, the sweep lists the
  containers that bear the management label and then calls \<open>stop\<close> on exactly those of
  them whose correlation-id label is present, not empty and not among the valid ids, in
  the order of the listing; \<open>remove\<close> is called exactly on the containers whose \<open>stop\<close>
  succeeded, and no other call is made.  A managed container without a correlation id, or
  with an empty one, is left untouched like the unmanaged ones.  Errors of \<open>stop\<close> and
  \<open>remove\<close> are swallowed: the sweep goes on and returns normally.
\<close>

theorem sweep_label_isolation:
  assumes "st_client s" and "rt_ping rt (st_trace s) = None"
      and "rt_ping rt (st_trace s @ [EvPing None]) = None"
      and "rt_list_error rt (st_trace s @ [EvPing None, EvPing None]) = None"
  shows "\<exists>listed rest.
           fst (cleanup_expired_containers rt instance_uuids s) = Inr ()
         \<and> listed = filter managed (rt_containers rt (st_trace s @ [EvPing None, EvPing None]))
         \<and> new_events s (snd (cleanup_expired_containers rt instance_uuids s))
             = [EvPing None, EvPing None, EvList True ''ctfd.managed=true'' (Inr listed)] @ rest
         \<and> stopped rest = filter (orphaned instance_uuids) listed
         \<and> removed rest = stopped_ok rest
         \<and> length rest = length (stopped rest) + length (removed rest)"
proof -
  let ?s1 = "emit (EvPing None) s"
  let ?s2 = "emit (EvPing None) ?s1"
  let ?listed = "filter managed (rt_containers rt (st_trace s @ [EvPing None, EvPing None]))"
  let ?s3 = "emit (EvList True ''ctfd.managed=true'' (Inr ?listed)) ?s2"
  have c1: "is_connected rt s = (True, ?s1)" using assms(1,2) by (rule is_connected_ok)
  have c2: "is_connected rt ?s1 = (True, ?s2)"
    using assms(1,3) by (intro is_connected_ok) (simp_all add: emit_def)
  have tr2: "st_trace ?s2 = st_trace s @ [EvPing None, EvPing None]"
    by (simp add: emit_def)
  have cl: "containers_list rt True ''ctfd.managed=true'' ?s2 = (Inr ?listed, ?s3)"
    using assms(4) unfolding containers_list_def tr2 by (simp add: label_filter_managed Let_def)
  have l: "list_managed_containers rt ?s1 = (?listed, ?s3)"
    unfolding list_managed_containers_def c2 by (simp add: cl)
  have r: "cleanup_expired_containers rt instance_uuids s = (Inr (), cleanup_loop rt instance_uuids ?listed ?s3)"
    by (simp add: cleanup_expired_containers_def c1 l)
  obtain rest where rest: "st_trace (cleanup_loop rt instance_uuids ?listed ?s3) = st_trace ?s3 @ rest"
        "stopped rest = filter (orphaned instance_uuids) ?listed" "removed rest = stopped_ok rest"
        "length rest = length (stopped rest) + length (removed rest)"
    using cleanup_loop_trace[of rt instance_uuids ?listed ?s3] by blast
  have "st_trace (snd (cleanup_expired_containers rt instance_uuids s))
        = st_trace s @ ([EvPing None, EvPing None, EvList True ''ctfd.managed=true'' (Inr ?listed)] @ rest)"
    using r rest(1) by (simp add: emit_def)
  from new_events_append[OF this] r rest(2,3,4) show ?thesis by simp
qed

theorem sweep_label_isolation_witness:
  "st_client s0 \<and> rt_ping rt_sweep (st_trace s0) = None
   \<and> rt_list_error rt_sweep (st_trace s0 @ [EvPing None, EvPing None]) = None
   \<and> stopped (new_events s0 (snd (cleanup_expired_containers rt_sweep [''u1''] s0))) = [c_orphan]"
proof -
  have h: "st_client s0" "rt_ping rt_sweep (st_trace s0) = None"
     "rt_ping rt_sweep (st_trace s0 @ [EvPing None]) = None"
     "rt_list_error rt_sweep (st_trace s0 @ [EvPing None, EvPing None]) = None"
    by (simp_all add: rt_sweep_def rt_ok_def s0_def)
  from sweep_label_isolation[OF h, of "[''u1'']"] obtain listed rest where
    l: "listed = filter managed (rt_containers rt_sweep (st_trace s0 @ [EvPing None, EvPing None]))"
    and n: "new_events s0 (snd (cleanup_expired_containers rt_sweep [''u1''] s0))
             = [EvPing None, EvPing None, EvList True ''ctfd.managed=true'' (Inr listed)] @ rest"
    and st: "stopped rest = filter (orphaned [''u1'']) listed"
    by blast
  have "filter (orphaned [''u1'']) listed = [c_orphan]"
    unfolding l
    by (simp add: rt_sweep_def rt_ok_def managed_def orphaned_def dict_get_def
                  c_orphan_def c_live_def c_foreign_def c_no_uuid_def c_empty_uuid_def)
  then have "stopped (new_events s0 (snd (cleanup_expired_containers rt_sweep [''u1''] s0))) = [c_orphan]"
    unfolding n using st by (simp add: stopped_def)
  with h show ?thesis by simp
qed

subsection \<open>Compensation of a failed group creation\<close>

text \<open>
  C1.  When \<open>create_container_group\<close> fails, the tunnel route has to be unbound if it was
  bound.  The handler tests \<open>if ts_serve_port:\<close>, which is false for the port 0 although
  \<open>ts_serve_port = host_port\<close> was assigned to record the bind.  With \<open>host_port = 0\<close> and a
  relay whose serve command exits with 0 and prints bytes that are not UTF-8, the route is
  bound, the log line that decodes the output raises, and the handler runs no
  \<open>tailscale serve ... off\<close>: the only command executed in the relay is the one that binds
  the route.  With the port 30010 and the same runtime the \<open>off\<close> command is run.
\<close>

theorem group_compensation_port_zero:
  "fst (create_container_group rt_bad_output cg_port0 s0) = Inl UnicodeDecodeError
   \<and> exec_calls (st_trace (snd (create_container_group rt_bad_output cg_port0 s0)))
       = [(serve_cmd 0 ''g-web'' 8080, Inr (0, Undecodable))]
   \<and> cg_host_port cg_port0 = 0
   \<and> fst (create_container_group rt_bad_output cg_example s0) = Inl UnicodeDecodeError
   \<and> exec_calls (st_trace (snd (create_container_group rt_bad_output cg_example s0)))
       = [(serve_cmd 30010 ''g-web'' 8080, Inr (0, Undecodable)),
          (serve_off_cmd 30010, Inr (0, Undecodable))]
   \<and> cg_host_port cg_example = 30010"
  by (simp add: grp_defs rt_bad_output_def rt_ok_def cg_port0_def cg_example_def s0_def
                cd_db_def cd_web_def op_defs exec_calls_def)

text \<open>
  For every external port other than 0 the compensation is complete.  A failing
  \<open>create_container_group\<close> (with the runtime connected) raises the exception of its \<open>try\<close>
  body, and between the failure and the raise it makes exactly these calls, in this order:
  if a serve command of the body exited with 0, one attempt to unbind the route for
  \<open>host_port\<close> (look the relay up, run the \<open>off\<close> command in it); if the relay was connected
  to the network, one attempt to disconnect it (look the relay up, disconnect); for every
  container that a \<open>containers.run\<close> of the body returned, in the order of creation, \<open>stop\<close>
  with timeout 3 and, if that succeeded, \<open>remove\<close>; and one \<open>remove\<close> of the network if the
  body created it.  Whatever these calls answer, the error returned is the one of the body.
\<close>

theorem group_compensation:
  assumes "st_client s" and "rt_ping rt (st_trace s) = None"
      and "create_container_group rt a s = (Inl e, s')"
      and "cg_host_port a \<noteq> 0"
  shows "\<exists>body U D S N.
           fst (group_body rt a init_locals (emit (EvPing None) s)) = Inl e
         \<and> st_trace (snd (snd (group_body rt a init_locals (emit (EvPing None) s))))
             = st_trace s @ [EvPing None] @ body
         \<and> st_trace s' = st_trace s @ [EvPing None] @ body @ U @ D @ S @ N
         \<and> (if bound body then unbind_attempt (cg_tailnet_container a) (cg_host_port a) U else U = [])
         \<and> (if joined body
             then (\<exists>n. created_network body = Some n \<and> disconnect_attempt (cg_tailnet_container a) n D)
             else D = [])
         \<and> stop_attempts (run_oks body) S
         \<and> (case created_network body of None \<Rightarrow> N = [] | Some n \<Rightarrow> network_removal n N)"
proof -
  from group_failure_trace[OF assms(1,2,3)] obtain loc sb body U D S N where
    h: "group_body rt a init_locals (emit (EvPing None) s) = (Inl e, loc, sb)"
       "st_trace sb = st_trace s @ [EvPing None] @ body"
       "st_trace s' = st_trace s @ [EvPing None] @ body @ U @ D @ S @ N"
       "if bound body \<and> cg_host_port a \<noteq> 0
        then unbind_attempt (cg_tailnet_container a) (cg_host_port a) U else U = []"
       "if joined body
        then (\<exists>n. created_network body = Some n \<and> disconnect_attempt (cg_tailnet_container a) n D)
        else D = []"
       "stop_attempts (run_oks body) S"
       "case created_network body of None \<Rightarrow> N = [] | Some n \<Rightarrow> network_removal n N"
    by blast
  from h(1) have f: "fst (group_body rt a init_locals (emit (EvPing None) s)) = Inl e"
    "snd (snd (group_body rt a init_locals (emit (EvPing None) s))) = sb" by simp_all
  from h(4) assms(4) have u: "if bound body then unbind_attempt (cg_tailnet_container a) (cg_host_port a) U else U = []"
    by simp
  from f h(2,3) u h(5,6,7) show ?thesis by blast
qed

theorem group_compensation_witness:
  "st_client s0 \<and> rt_ping rt_bad_output (st_trace s0) = None \<and> cg_host_port cg_example \<noteq> 0
   \<and> fst (create_container_group rt_bad_output cg_example s0) = Inl UnicodeDecodeError
   \<and> exec_calls (st_trace (snd (create_container_group rt_bad_output cg_example s0)))
       = [(serve_cmd 30010 ''g-web'' 8080, Inr (0, Undecodable)),
          (serve_off_cmd 30010, Inr (0, Undecodable))]
   \<and> (\<exists>body U D S N.
         st_trace (snd (create_container_group rt_bad_output cg_example s0))
           = st_trace s0 @ [EvPing None] @ body @ U @ D @ S @ N
       \<and> (if bound body then unbind_attempt (cg_tailnet_container cg_example) (cg_host_port cg_example) U
           else U = [])
       \<and> (if joined body
           then (\<exists>n. created_network body = Some n
                    \<and> disconnect_attempt (cg_tailnet_container cg_example) n D)
           else D = [])
       \<and> stop_attempts (run_oks body) S
       \<and> (case created_network body of None \<Rightarrow> N = [] | Some n \<Rightarrow> network_removal n N))"
proof -
  let ?e = "UnicodeDecodeError"
  have h: "st_client s0" "rt_ping rt_bad_output (st_trace s0) = None" "cg_host_port cg_example \<noteq> 0"
    by (simp_all add: rt_bad_output_def rt_ok_def s0_def cg_example_def)
  have f: "fst (create_container_group rt_bad_output cg_example s0) = Inl ?e"
    by (simp add: grp_defs rt_bad_output_def rt_ok_def cg_example_def s0_def cd_db_def cd_web_def op_defs)
  have x: "exec_calls (st_trace (snd (create_container_group rt_bad_output cg_example s0)))
       = [(serve_cmd 30010 ''g-web'' 8080, Inr (0, Undecodable)),
          (serve_off_cmd 30010, Inr (0, Undecodable))]"
    by (simp add: grp_defs rt_bad_output_def rt_ok_def cg_example_def s0_def cd_db_def cd_web_def
                  op_defs exec_calls_def)
  from f have e: "create_container_group rt_bad_output cg_example s0
                = (Inl ?e, snd (create_container_group rt_bad_output cg_example s0))"
    by (metis prod.collapse)
  from group_compensation[OF h(1,2) e h(3)] h f x show ?thesis by blast
qed

subsection \<open>The CPU quota\<close>



subsection \<open>Hardening and labels\<close>

text \<open>
  C4.  \<open>create_container\<close> passes \<open>cap_drop=['ALL']\<close>, \<open>cap_add=['CHOWN', 'SETUID', 'SETGID']\<close>,
  \<open>security_opt=['no-new-privileges']\<close>, \<open>auto_remove=True\<close> and the labels
  \<open>ctfd.managed=true\<close> and \<open>ctfd.plugin=containers\<close> in both of its branches.  The two
  \<open>containers.run\<close> calls of \<open>create_container_group\<close> pass \<open>auto_remove=True\<close> only: no
  capability is dropped, privilege escalation is not disallowed, and the labels are the
  caller's labels plus \<open>ctfd.compose_role\<close> and \<open>ctfd.compose_name\<close>, without the management
  and plugin labels.  A group of an internal and an entry container, created without
  caller labels on a runtime that accepts every call:
\<close>

theorem group_containers_unhardened:
  "fst (create_container_group rt_ok cg_example s0)
     = Inr \<lparr>gh_container_ids = [''id-g-db'', ''id-g-web''], gh_entry_container_id = ''id-g-web'',
            gh_network_id = ''net-grp-net'', gh_port = 30010\<rparr>
   \<and> map ra_cap_drop (run_calls (st_trace (snd (create_container_group rt_ok cg_example s0)))) = [None, None]
   \<and> map ra_cap_add (run_calls (st_trace (snd (create_container_group rt_ok cg_example s0)))) = [None, None]
   \<and> map ra_security_opt (run_calls (st_trace (snd (create_container_group rt_ok cg_example s0))))
       = [None, None]
   \<and> map ra_auto_remove (run_calls (st_trace (snd (create_container_group rt_ok cg_example s0))))
       = [True, True]
   \<and> map ra_labels (run_calls (st_trace (snd (create_container_group rt_ok cg_example s0))))
       = [[(''ctfd.compose_role'', ''internal''), (''ctfd.compose_name'', ''db'')],
          [(''ctfd.compose_role'', ''entry''), (''ctfd.compose_name'', ''web'')]]
   \<and> ra_cap_drop (create_run_args cc_multi) = Some [''ALL'']
   \<and> ra_cap_add (create_run_args cc_multi) = Some [''CHOWN'', ''SETUID'', ''SETGID'']
   \<and> ra_security_opt (create_run_args cc_multi) = Some [''no-new-privileges'']
   \<and> ra_auto_remove (create_run_args cc_multi)
   \<and> ra_labels (create_run_args cc_multi) = [(''ctfd.managed'', ''true''), (''ctfd.plugin'', ''containers'')]
   \<and> ra_cap_drop (create_run_args cc_shared) = Some [''ALL'']
   \<and> ra_cap_add (create_run_args cc_shared) = Some [''CHOWN'', ''SETUID'', ''SETGID'']
   \<and> ra_security_opt (create_run_args cc_shared) = Some [''no-new-privileges'']
   \<and> ra_auto_remove (create_run_args cc_shared)
   \<and> ra_labels (create_run_args cc_shared) = [(''ctfd.managed'', ''true''), (''ctfd.plugin'', ''containers'')]"
  by (simp add: grp_defs rt_ok_def cg_example_def s0_def cd_db_def cd_web_def op_defs run_calls_def
                create_run_args_def cc_multi_def cc_shared_def cc_default_def container_labels_def
                dict_update_def)

subsection \<open>The entry of a group\<close>




end
